theory Spec2Isabelle
  imports Complex_Main "HOL-Library.Sublist"
begin

section \<open>Floating-point values\<close>

text \<open>
  Both scripts compute on Python floats and numpy/torch arrays of floats. A float is
  modelled as a finite value or one of the three special values that
  \<^verbatim>\<open>float("inf")\<close>, \<^verbatim>\<open>float("-inf")\<close> and \<^verbatim>\<open>float("nan")\<close> produce and that the
  parser of both programs accepts. A finite result of an operation on finite values
  overflows to an infinity as a double does under round-to-nearest: when its magnitude
  reaches \<open>2^1024 - 2^970\<close>, half a unit in the last place above the largest double.
  Below that bound the result is kept exact (the rounding of results in range and the
  sign of zero are not modelled). The special values follow IEEE 754: they
  propagate, and \<open>inf - inf\<close>, \<open>0 * inf\<close>, \<open>0 / 0\<close> and \<open>inf / inf\<close> are NaN.
  numpy array arithmetic does not raise on division by zero, it yields inf or NaN.
  The narrowing of a window to 32-bit floats on its way into a PyTorch module belongs
  to the module, which is a parameter.
\<close>

datatype fl = Num real | PosInf | NegInf | NaN

fun is_finite :: "fl \<Rightarrow> bool" where
  "is_finite (Num r) = True"
| "is_finite PosInf = False"
| "is_finite NegInf = False"
| "is_finite NaN = False"

fun fneg :: "fl \<Rightarrow> fl" where
  "fneg (Num a) = Num (- a)"
| "fneg PosInf = NegInf"
| "fneg NegInf = PosInf"
| "fneg NaN = NaN"

text \<open>The bound at which a result overflows, and the result of an operation on doubles.\<close>

definition overflow_threshold :: real where
  "overflow_threshold = 2 ^ 1024 - 2 ^ 970"

definition round_overflow :: "real \<Rightarrow> fl" where
  "round_overflow x =
     (if overflow_threshold \<le> x then PosInf
      else if x \<le> - overflow_threshold then NegInf
      else Num x)"

fun fadd :: "fl \<Rightarrow> fl \<Rightarrow> fl" where
  "fadd (Num a) (Num b) = round_overflow (a + b)"
| "fadd (Num a) PosInf = PosInf"
| "fadd (Num a) NegInf = NegInf"
| "fadd PosInf (Num b) = PosInf"
| "fadd PosInf PosInf = PosInf"
| "fadd PosInf NegInf = NaN"
| "fadd NegInf (Num b) = NegInf"
| "fadd NegInf NegInf = NegInf"
| "fadd NegInf PosInf = NaN"
| "fadd NaN y = NaN"
| "fadd x NaN = NaN"

definition fsub :: "fl \<Rightarrow> fl \<Rightarrow> fl" where
  "fsub x y = fadd x (fneg y)"

text \<open>The infinity of the sign of a non-zero real.\<close>

definition inf_of_sign :: "real \<Rightarrow> fl" where
  "inf_of_sign a = (if a = 0 then NaN else if 0 < a then PosInf else NegInf)"

fun fmul :: "fl \<Rightarrow> fl \<Rightarrow> fl" where
  "fmul (Num a) (Num b) = round_overflow (a * b)"
| "fmul (Num a) PosInf = inf_of_sign a"
| "fmul (Num a) NegInf = inf_of_sign (- a)"
| "fmul PosInf (Num b) = inf_of_sign b"
| "fmul NegInf (Num b) = inf_of_sign (- b)"
| "fmul PosInf PosInf = PosInf"
| "fmul PosInf NegInf = NegInf"
| "fmul NegInf PosInf = NegInf"
| "fmul NegInf NegInf = PosInf"
| "fmul NaN y = NaN"
| "fmul x NaN = NaN"

fun fdiv :: "fl \<Rightarrow> fl \<Rightarrow> fl" where
  "fdiv (Num a) (Num b) = (if b = 0 then inf_of_sign a else round_overflow (a / b))"
| "fdiv (Num a) PosInf = Num 0"
| "fdiv (Num a) NegInf = Num 0"
| "fdiv PosInf (Num b) = (if 0 \<le> b then PosInf else NegInf)"
| "fdiv NegInf (Num b) = (if 0 \<le> b then NegInf else PosInf)"
| "fdiv PosInf PosInf = NaN"
| "fdiv PosInf NegInf = NaN"
| "fdiv NegInf PosInf = NaN"
| "fdiv NegInf NegInf = NaN"
| "fdiv NaN y = NaN"
| "fdiv x NaN = NaN"

fun fsqrt :: "fl \<Rightarrow> fl" where
  "fsqrt (Num a) = (if a < 0 then NaN else Num (sqrt a))"
| "fsqrt PosInf = PosInf"
| "fsqrt NegInf = NaN"
| "fsqrt NaN = NaN"

text \<open>IEEE comparison: every comparison with NaN is false, except \<open>!=\<close>.\<close>

fun fless :: "fl \<Rightarrow> fl \<Rightarrow> bool" where
  "fless (Num a) (Num b) = (a < b)"
| "fless (Num a) PosInf = True"
| "fless (Num a) NegInf = False"
| "fless PosInf y = False"
| "fless NegInf (Num b) = True"
| "fless NegInf PosInf = True"
| "fless NegInf NegInf = False"
| "fless x NaN = False"
| "fless NaN y = False"

definition feq :: "fl \<Rightarrow> fl \<Rightarrow> bool" where
  "feq x y = (x \<noteq> NaN \<and> y \<noteq> NaN \<and> x = y)"

definition fne :: "fl \<Rightarrow> fl \<Rightarrow> bool" where
  "fne x y = (\<not> feq x y)"

section \<open>numpy reductions\<close>

text \<open>An exception is modelled by the text of its message.\<close>

type_synonym exn = string

definition fmin2 :: "fl \<Rightarrow> fl \<Rightarrow> fl" where
  "fmin2 a b = (if a = NaN \<or> b = NaN then NaN else if fless b a then b else a)"

definition fmax2 :: "fl \<Rightarrow> fl \<Rightarrow> fl" where
  "fmax2 a b = (if a = NaN \<or> b = NaN then NaN else if fless a b then b else a)"

text \<open>\<^verbatim>\<open>np.min\<close> and \<^verbatim>\<open>np.max\<close> propagate NaN and raise ValueError on an empty array.\<close>

fun np_min :: "fl list \<Rightarrow> exn + fl" where
  "np_min [] = Inl ''zero-size array to reduction operation minimum which has no identity''"
| "np_min (x # xs) = Inr (foldl fmin2 x xs)"

fun np_max :: "fl list \<Rightarrow> exn + fl" where
  "np_max [] = Inl ''zero-size array to reduction operation maximum which has no identity''"
| "np_max (x # xs) = Inr (foldl fmax2 x xs)"

definition np_sum :: "fl list \<Rightarrow> fl" where
  "np_sum xs = foldl fadd (Num 0) xs"

text \<open>\<^verbatim>\<open>np.mean\<close> of an empty array is NaN (with a warning), as \<open>0 / 0\<close> is here.\<close>

definition np_mean :: "fl list \<Rightarrow> fl" where
  "np_mean xs = fdiv (np_sum xs) (Num (real (length xs)))"

text \<open>\<^verbatim>\<open>np.std\<close>: the population standard deviation.\<close>

definition np_std :: "fl list \<Rightarrow> fl" where
  "np_std xs =
     (let m = np_mean xs;
          d = map (\<lambda>x. fsub x m) xs
      in fsqrt (np_mean (map (\<lambda>x. fmul x x) d)))"

section \<open>The autoregressive forecaster of the LSTM script\<close>

text \<open>
  \<^verbatim>\<open>scripts/lstm_validate.py\<close>, function \<^verbatim>\<open>predict\<close>. A tensor of shape
  \<open>(1, T, C)\<close> is the list of its \<open>T\<close> timesteps, each the list of its \<open>C\<close> channels.
\<close>

type_synonym tensor = "fl list list"

definition SEQUENCE_LENGTH :: nat where
  "SEQUENCE_LENGTH = 60"

text \<open>
  A Keras model: its \<^verbatim>\<open>input_shape\<close> (a dimension is \<^verbatim>\<open>None\<close> or a number), and
  \<^verbatim>\<open>float(keras_model.predict(x, verbose=0)[0][0])\<close>, which raises or yields a float.
\<close>

record keras_model =
  input_shape :: "nat option list"
  keras_predict :: "tensor \<Rightarrow> exn + fl"

text \<open>\<^verbatim>\<open>scaler.transform(features)\<close> of the unpickled companion scaler; \<open>None\<close> when it raises.\<close>

type_synonym scaler = "tensor \<Rightarrow> tensor option"

text \<open>
  What \<^verbatim>\<open>load_model\<close> hands to \<^verbatim>\<open>predict\<close>: a PyTorch module, given by
  \<^verbatim>\<open>model(input_tensor).item()\<close>, or the tuple \<^verbatim>\<open>(keras_model, scaler, metadata)\<close>.
  A tuple whose first component is a \<^verbatim>\<open>tf.keras.Model\<close> exists only where TensorFlow
  is installed, so the test \<^verbatim>\<open>HAS_TF and isinstance(model, tuple) and ...\<close> of
  \<^verbatim>\<open>predict\<close> is the case distinction on this type.
\<close>

datatype model_handle =
  Torch "tensor \<Rightarrow> exn + fl"
| Keras keras_model "scaler option" "string option"

text \<open>\<^verbatim>\<open>xs[lo:hi]\<close> for \<open>0 \<le> lo\<close> and \<open>0 \<le> hi\<close>.\<close>

definition py_slice :: "nat \<Rightarrow> nat \<Rightarrow> 'a list \<Rightarrow> 'a list" where
  "py_slice lo hi xs = take (hi - lo) (drop lo xs)"

text \<open>
  One row of the six synthesized features (lines 197-203 and 237-243). On naturals
  \<open>i - 4\<close> is \<^verbatim>\<open>max(0, i-4)\<close>.
\<close>

definition feature_row :: "fl list \<Rightarrow> nat \<Rightarrow> fl list" where
  "feature_row current_sequence i =
     (let price = current_sequence ! i;
          price_change = (if 0 < i then fsub (current_sequence ! i) (current_sequence ! (i - 1))
                          else Num 0);
          ma5 = (if 4 \<le> i then np_mean (py_slice (i - 4) (i + 1) current_sequence) else price);
          ma10 = (if 9 \<le> i then np_mean (py_slice (i - 9) (i + 1) current_sequence) else price);
          ma20 = (if 19 \<le> i then np_mean (py_slice (i - 19) (i + 1) current_sequence) else price);
          volume_sim = Num 1
      in [price, price_change, ma5, ma10, ma20, volume_sim])"

definition synth_features :: "fl list \<Rightarrow> tensor" where
  "synth_features current_sequence =
     map (feature_row current_sequence) [0..<length current_sequence]"

definition column :: "nat \<Rightarrow> 'a list list \<Rightarrow> 'a list" where
  "column j features = map (\<lambda>row. row ! j) features"

text \<open>
  Manual normalization of the \<open>T \<times> 6\<close> feature matrix:
  \<^verbatim>\<open>(features - np.mean(features, axis=0)) / (np.std(features, axis=0) + 1e-8)\<close>.
\<close>

definition standardize :: "tensor \<Rightarrow> tensor" where
  "standardize features =
     map (\<lambda>row. map (\<lambda>j. fdiv (fsub (row ! j) (np_mean (column j features)))
                              (fadd (np_std (column j features)) (Num (1 / 10 ^ 8))))
                    [0..<6])
         features"

text \<open>The scaler if there is one and it does not raise, else the manual normalization.\<close>

definition normalize_features :: "scaler option \<Rightarrow> tensor \<Rightarrow> tensor" where
  "normalize_features sc features =
     (case sc of
        None \<Rightarrow> standardize features
      | Some transform \<Rightarrow>
          (case transform features of
             None \<Rightarrow> standardize features
           | Some scaled \<Rightarrow> scaled))"

text \<open>
  The loops return the predictions, or the exception that an inference call raised,
  and beside them the input tensors of the inference calls made, in order.
\<close>

text \<open>
  The loop of the multi-feature path (lines 220-254): \<open>n\<close> iterations from the raw
  window \<open>current_sequence\<close> and the normalized \<open>input_tensor\<close>.
\<close>

fun multi_feature_loop ::
  "keras_model \<Rightarrow> scaler option \<Rightarrow> nat \<Rightarrow> fl list \<Rightarrow> tensor \<Rightarrow> tensor list \<times> (exn + fl list)" where
  "multi_feature_loop km sc 0 current_sequence input_tensor = ([], Inr [])"
| "multi_feature_loop km sc (Suc n) current_sequence input_tensor =
     (case keras_predict km input_tensor of
        Inl e \<Rightarrow> ([input_tensor], Inl e)
      | Inr pred_val \<Rightarrow>
          (let mean_price = np_mean current_sequence;
               std_price = np_std current_sequence;
               real_pred = fadd (fmul pred_val std_price) mean_price;
               current_sequence' = drop 1 current_sequence @ [real_pred];
               input_tensor' = normalize_features sc (synth_features current_sequence');
               (calls, r) = multi_feature_loop km sc n current_sequence' input_tensor'
           in (input_tensor # calls,
               case r of Inl e \<Rightarrow> Inl e | Inr predictions \<Rightarrow> Inr (real_pred # predictions))))"

text \<open>
  The loop of the two single-feature paths (lines 265-273 for Keras, 289-300 for
  PyTorch; the same statements): \<open>scale\<close> and \<open>min_val\<close> are arguments that no
  iteration changes.
\<close>

fun single_feature_loop ::
  "(tensor \<Rightarrow> exn + fl) \<Rightarrow> fl \<Rightarrow> fl \<Rightarrow> nat \<Rightarrow> tensor \<Rightarrow> tensor list \<times> (exn + fl list)" where
  "single_feature_loop infer scale min_val 0 input_tensor = ([], Inr [])"
| "single_feature_loop infer scale min_val (Suc n) input_tensor =
     (case infer input_tensor of
        Inl e \<Rightarrow> ([input_tensor], Inl e)
      | Inr pred_val \<Rightarrow>
          (let real_pred = fadd (fmul pred_val scale) min_val;
               input_tensor' = drop 1 input_tensor @ [[pred_val]];
               (calls, r) = single_feature_loop infer scale min_val n input_tensor'
           in (input_tensor # calls,
               case r of Inl e \<Rightarrow> Inl e | Inr predictions \<Rightarrow> Inr (real_pred # predictions))))"

text \<open>
  The normalization parameters \<open>(min_val, scale)\<close> of a window (lines 258-260 and
  277-282). The Keras path tests \<^verbatim>\<open>max_val != min_val\<close>, the PyTorch path
  \<^verbatim>\<open>max_val == min_val\<close>.
\<close>

definition keras_norm_params :: "fl list \<Rightarrow> exn + fl \<times> fl" where
  "keras_norm_params current_sequence =
     (case np_min current_sequence of
        Inl e \<Rightarrow> Inl e
      | Inr min_val \<Rightarrow>
          (case np_max current_sequence of
             Inl e \<Rightarrow> Inl e
           | Inr max_val \<Rightarrow>
               Inr (min_val, if fne max_val min_val then fsub max_val min_val else Num 1)))"

definition torch_norm_params :: "fl list \<Rightarrow> exn + fl \<times> fl" where
  "torch_norm_params current_sequence =
     (case np_min current_sequence of
        Inl e \<Rightarrow> Inl e
      | Inr min_val \<Rightarrow>
          (case np_max current_sequence of
             Inl e \<Rightarrow> Inl e
           | Inr max_val \<Rightarrow>
               Inr (min_val, if feq max_val min_val then Num 1 else fsub max_val min_val)))"

text \<open>\<^verbatim>\<open>(current_sequence - min_val) / scale\<close> on the window reshaped to \<open>(T, 1)\<close>.\<close>

definition normalized_seq :: "fl list \<Rightarrow> fl \<Rightarrow> fl \<Rightarrow> tensor" where
  "normalized_seq current_sequence min_val scale =
     map (\<lambda>x. [fdiv (fsub x min_val) scale]) current_sequence"

text \<open>
  \<^verbatim>\<open>predict(model, prices, steps)\<close> with the trace of its inference calls.
  \<^verbatim>\<open>prices[-SEQUENCE_LENGTH:]\<close> is the whole list when it is shorter than 60, and
  \<^verbatim>\<open>range(steps)\<close> is empty for \<open>steps \<le> 0\<close>.
\<close>

definition predict_trace :: "model_handle \<Rightarrow> fl list \<Rightarrow> int \<Rightarrow> tensor list \<times> (exn + fl list)" where
  "predict_trace model prices steps =
     (let current_sequence = drop (length prices - SEQUENCE_LENGTH) prices
      in case model of
           Keras km sc metadata \<Rightarrow>
             (if length (input_shape km) = 3 \<and> input_shape km ! 2 = Some 6
              then multi_feature_loop km sc (nat steps) current_sequence
                     (normalize_features sc (synth_features current_sequence))
              else (case keras_norm_params current_sequence of
                      Inl e \<Rightarrow> ([], Inl e)
                    | Inr (min_val, scale) \<Rightarrow>
                        single_feature_loop (keras_predict km) scale min_val (nat steps)
                          (normalized_seq current_sequence min_val scale)))
         | Torch net \<Rightarrow>
             (case torch_norm_params current_sequence of
                Inl e \<Rightarrow> ([], Inl e)
              | Inr (min_val, scale) \<Rightarrow>
                  single_feature_loop net scale min_val (nat steps)
                    (normalized_seq current_sequence min_val scale)))"

definition predict :: "model_handle \<Rightarrow> fl list \<Rightarrow> int \<Rightarrow> exn + fl list" where
  "predict model prices steps = snd (predict_trace model prices steps)"

definition inference_inputs :: "model_handle \<Rightarrow> fl list \<Rightarrow> int \<Rightarrow> tensor list" where
  "inference_inputs model prices steps = fst (predict_trace model prices steps)"

section \<open>Strings\<close>

text \<open>\<^verbatim>\<open>s.split(',')\<close>: one token more than there are separators, empty tokens kept.\<close>

fun split_on :: "char \<Rightarrow> string \<Rightarrow> string list" where
  "split_on sep [] = [[]]"
| "split_on sep (c # cs) =
     (if c = sep then [] # split_on sep cs
      else (case split_on sep cs of
              [] \<Rightarrow> [[c]]
            | t # ts \<Rightarrow> (c # t) # ts))"

text \<open>\<^verbatim>\<open>sep.join(xs)\<close>.\<close>

fun join :: "string \<Rightarrow> string list \<Rightarrow> string" where
  "join sep [] = []"
| "join sep [x] = x"
| "join sep (x # y # ys) = x @ sep @ join sep (y # ys)"

text \<open>\<^verbatim>\<open>s.lower()\<close> on ASCII letters.\<close>

definition lower_char :: "char \<Rightarrow> char" where
  "lower_char c =
     (let n = (of_char c :: nat) in if 65 \<le> n \<and> n \<le> 90 then char_of (n + 32) else c)"

definition lower :: "string \<Rightarrow> string" where
  "lower s = map lower_char s"

text \<open>
  The parser of both programs: \<^verbatim>\<open>[float(x) for x in args.prices.split(',')]\<close>.
  \<^verbatim>\<open>float\<close> is the builtin, a parameter here: \<open>None\<close> where it raises ValueError.
  The result is \<open>None\<close> as soon as one token raises.
\<close>

fun float_all :: "(string \<Rightarrow> fl option) \<Rightarrow> string list \<Rightarrow> fl list option" where
  "float_all py_float [] = Some []"
| "float_all py_float (t # ts) =
     (case py_float t of
        None \<Rightarrow> None
      | Some x \<Rightarrow> (case float_all py_float ts of None \<Rightarrow> None | Some xs \<Rightarrow> Some (x # xs)))"

definition parse_prices :: "(string \<Rightarrow> fl option) \<Rightarrow> string \<Rightarrow> fl list option" where
  "parse_prices py_float prices_arg = float_all py_float (split_on CHR '','' prices_arg)"

section \<open>The model resolver of the LSTM script\<close>

text \<open>
  \<^verbatim>\<open>scripts/lstm_validate.py\<close>, function \<^verbatim>\<open>load_model\<close>. The hub client and the
  loaders of the ML runtimes are the environment: each call raises (\<open>Inl\<close>) or returns.
  \<^verbatim>\<open>torch_load\<close> stands for lines 163-176: \<^verbatim>\<open>torch.load\<close>, the unwrapping of the state
  dictionary and \<^verbatim>\<open>load_state_dict(strict=False)\<close> into a \<^verbatim>\<open>StockLSTM\<close>.
  Messages printed to the error stream are not modelled.
\<close>

record lstm_env =
  HAS_TF :: bool
  list_repo_files :: "string \<Rightarrow> exn + string list"
  hf_hub_download :: "string \<Rightarrow> string \<Rightarrow> exn + string"
  keras_load_model :: "string \<Rightarrow> exn + keras_model"
  json_load :: "string \<Rightarrow> exn + string"
  pickle_load :: "string \<Rightarrow> exn + scaler"
  torch_load :: "string \<Rightarrow> exn + (tensor \<Rightarrow> exn + fl)"

definition possible_filenames :: "string list" where
  "possible_filenames =
     [''model.pth'', ''pytorch_model.bin'', ''model.bin'', ''lstm_model.pth'',
      ''stock_lstm.pth'', ''pytorch_model.pt'', ''model.pt'']"

definition keras_files :: "string list" where
  "keras_files =
     [''stage2_universal_lstm_20250705_170829.keras'', ''model.keras'', ''lstm_model.keras'']"

text \<open>
  The two candidate loops (lines 63-70 and 80-87): the path of the first candidate
  that downloads, and the last exception seen.
\<close>

fun try_download ::
  "(string \<Rightarrow> exn + string) \<Rightarrow> string list \<Rightarrow> exn option \<Rightarrow> string option \<times> exn option" where
  "try_download download [] last_error = (None, last_error)"
| "try_download download (filename # rest) last_error =
     (case download filename of
        Inr path \<Rightarrow> (Some path, last_error)
      | Inl e \<Rightarrow> try_download download rest (Some e))"

text \<open>Lines 91-98: any file of the listing that ends in \<^verbatim>\<open>.keras\<close>; every failure is swallowed.\<close>

definition find_any_keras :: "lstm_env \<Rightarrow> string \<Rightarrow> string option" where
  "find_any_keras env repo_id =
     (case list_repo_files env repo_id of
        Inl e \<Rightarrow> None
      | Inr files \<Rightarrow>
          (case find (\<lambda>f. suffix ''.keras'' f) files of
             None \<Rightarrow> None
           | Some keras_file \<Rightarrow>
               (if keras_file = [] then None
                else (case hf_hub_download env repo_id keras_file of
                        Inl e \<Rightarrow> None
                      | Inr path \<Rightarrow> Some path))))"

text \<open>
  Lines 102-114: the companion search, \<open>(scaler_path, metadata_path)\<close>. One
  \<^verbatim>\<open>try\<close> block holds both downloads, so an exception in the first skips the second.
\<close>

text \<open>The two tests of the companion search (lines 104 and 105).\<close>

definition scaler_name :: "string \<Rightarrow> bool" where
  "scaler_name f = (sublist ''scaler'' (lower f) \<and> suffix ''.pkl'' f)"

definition metadata_name :: "string \<Rightarrow> bool" where
  "metadata_name f = (sublist ''metadata'' (lower f) \<and> suffix ''.json'' f)"

definition find_companions :: "lstm_env \<Rightarrow> string \<Rightarrow> string option \<times> string option" where
  "find_companions env repo_id =
     (case list_repo_files env repo_id of
        Inl e \<Rightarrow> (None, None)
      | Inr files \<Rightarrow>
          (let scaler_file = find scaler_name files;
               metadata_file = find metadata_name files;
               scaler_dl = (case scaler_file of
                              None \<Rightarrow> Inr None
                            | Some f \<Rightarrow> if f = [] then Inr None
                                        else map_sum id Some (hf_hub_download env repo_id f));
               metadata_dl = (case metadata_file of
                                None \<Rightarrow> Inr None
                              | Some f \<Rightarrow> if f = [] then Inr None
                                          else map_sum id Some (hf_hub_download env repo_id f))
           in case scaler_dl of
                Inl e \<Rightarrow> (None, None)
              | Inr scaler_path \<Rightarrow>
                  (case metadata_dl of
                     Inl e \<Rightarrow> (scaler_path, None)
                   | Inr metadata_path \<Rightarrow> (scaler_path, metadata_path))))"

text \<open>
  Lines 58-114: \<open>(model_path, scaler_path, metadata_path, last_error)\<close> when the search
  is over. The companion search stands inside the branch \<^verbatim>\<open>if model_path is None\<close>
  of line 73, which a PyTorch candidate that downloads skips.
\<close>

definition resolve ::
  "lstm_env \<Rightarrow> string \<Rightarrow> string option \<times> string option \<times> string option \<times> exn option" where
  "resolve env repo_id =
     (case try_download (hf_hub_download env repo_id) possible_filenames None of
        (Some path, last_error) \<Rightarrow> (Some path, None, None, last_error)
      | (None, last_error) \<Rightarrow>
          (case try_download (hf_hub_download env repo_id) keras_files last_error of
             (found, last_error') \<Rightarrow>
               (let model_path = (case found of
                                    Some path \<Rightarrow> Some path
                                  | None \<Rightarrow> find_any_keras env repo_id);
                    (scaler_path, metadata_path) =
                       (case model_path of
                          None \<Rightarrow> (None, None)
                        | Some path \<Rightarrow> if path = [] then (None, None)
                                       else find_companions env repo_id)
                in (model_path, scaler_path, metadata_path, last_error'))))"

text \<open>\<^verbatim>\<open>str(last_error)\<close> inside the f-string.\<close>

definition str_error :: "exn option \<Rightarrow> string" where
  "str_error last_error = (case last_error of None \<Rightarrow> ''None'' | Some e \<Rightarrow> e)"

text \<open>Lines 136-153: a companion is loaded if its path is there; a failure leaves \<open>None\<close>.\<close>

definition load_companion :: "(string \<Rightarrow> exn + 'a) \<Rightarrow> string option \<Rightarrow> 'a option" where
  "load_companion loader path =
     (case path of
        None \<Rightarrow> None
      | Some p \<Rightarrow> if p = [] then None
                  else (case loader p of Inl e \<Rightarrow> None | Inr x \<Rightarrow> Some x))"

text \<open>\<^verbatim>\<open>load_model(repo_id)\<close>: the error message (\<open>Inl\<close>) or the model handle.\<close>

definition load_model :: "lstm_env \<Rightarrow> string \<Rightarrow> string + model_handle" where
  "load_model env repo_id =
     (case resolve env repo_id of
        (None, scaler_path, metadata_path, last_error) \<Rightarrow>
          (case list_repo_files env repo_id of
             Inr files \<Rightarrow>
               Inl (''Model file not found. Available files: '' @ join '', '' files
                    @ ''. Last error: '' @ str_error last_error)
           | Inl e \<Rightarrow>
               Inl (''Model file not found. Repository may not exist or is private. Last error: ''
                    @ str_error last_error))
      | (Some model_path, scaler_path, metadata_path, last_error) \<Rightarrow>
          (if suffix ''.keras'' model_path
           then (if \<not> HAS_TF env
                 then Inl (''Keras model detected ('' @ model_path
                           @ '') but TensorFlow is not installed. Please install TensorFlow: pip install tensorflow'')
                 else (case keras_load_model env model_path of
                         Inl e \<Rightarrow> Inl (''Failed to load Keras model: '' @ e)
                       | Inr km \<Rightarrow>
                           (let metadata = load_companion (json_load env) metadata_path;
                                sc = load_companion (pickle_load env) scaler_path
                            in Inr (Keras km sc metadata))))
           else (case torch_load env model_path of
                   Inl e \<Rightarrow> Inl (''Architecture mismatch or load error: '' @ e)
                 | Inr net \<Rightarrow> Inr (Torch net))))"

section \<open>The two programs\<close>

text \<open>
  What a run of a program leaves behind: the JSON objects printed on standard output,
  the exit status, and whether the model load and the prediction were started.
  \<open>ErrorObj msg\<close> is \<^verbatim>\<open>{"error": msg}\<close>, \<open>PredictionObj p l\<close> is
  \<^verbatim>\<open>{"prediction": p, "last_price": l}\<close> and \<open>ForecastObj p lo hi\<close> is
  \<^verbatim>\<open>{"prediction": p, "lower_bound": lo, "upper_bound": hi}\<close>.
\<close>

datatype json_out =
  ErrorObj string
| PredictionObj "fl list" fl
| ForecastObj "real list" "real list" "real list"

record run =
  stdout :: "json_out list"
  exit_status :: int
  load_attempted :: bool
  predict_attempted :: bool

definition default_repo_id :: string where
  "default_repo_id = ''jengyang/lstm-stock-prediction-model''"

text \<open>
  Program B, \<^verbatim>\<open>main\<close> of \<^verbatim>\<open>scripts/lstm_validate.py\<close>, from the parsed arguments
  \<^verbatim>\<open>--prices\<close> and \<^verbatim>\<open>--steps\<close>. Every error message of \<^verbatim>\<open>load_model\<close> is a non-empty
  string, so \<^verbatim>\<open>if err\<close> holds exactly when \<^verbatim>\<open>load_model\<close> returned one.
\<close>

definition lstm_main :: "(string \<Rightarrow> fl option) \<Rightarrow> lstm_env \<Rightarrow> string \<Rightarrow> int \<Rightarrow> run" where
  "lstm_main py_float env prices_arg steps =
     (case parse_prices py_float prices_arg of
        None \<Rightarrow>
          \<lparr>stdout = [ErrorObj ''Invalid price format''], exit_status = 1,
           load_attempted = False, predict_attempted = False\<rparr>
      | Some prices \<Rightarrow>
          (if length prices < SEQUENCE_LENGTH
           then \<lparr>stdout = [ErrorObj ''Need at least 60 price points''], exit_status = 1,
                 load_attempted = False, predict_attempted = False\<rparr>
           else (case load_model env default_repo_id of
                   Inl err \<Rightarrow>
                     \<lparr>stdout = [ErrorObj err], exit_status = 1,
                      load_attempted = True, predict_attempted = False\<rparr>
                 | Inr model \<Rightarrow>
                     (case predict model prices steps of
                        Inl e \<Rightarrow>
                          \<lparr>stdout = [ErrorObj (''Prediction error: '' @ e)], exit_status = 1,
                           load_attempted = True, predict_attempted = True\<rparr>
                      | Inr preds \<Rightarrow>
                          \<lparr>stdout = [PredictionObj preds (last prices)], exit_status = 0,
                           load_attempted = True, predict_attempted = True\<rparr>))))"

section \<open>The quantile forecaster of the Chronos script\<close>

text \<open>
  Modelled from the spec: \<^verbatim>\<open>torch.quantile\<close> is library code outside the repository.
  Section 4.4 has it compute, for each of the \<open>steps\<close> positions, the 10th, 50th and
  90th percentile across the sample trajectories; the percentile is the one of the
  library's default, linear interpolation between the two nearest ranks of the sorted
  samples. The samples of the forecast are finite floats, taken as reals. An empty
  input tensor raises.
\<close>

definition quantile :: "real \<Rightarrow> real list \<Rightarrow> real" where
  "quantile q xs =
     (let sorted_xs = sort xs;
          pos = q * real (length xs - 1);
          below = nat \<lfloor>pos\<rfloor>;
          above = nat \<lceil>pos\<rceil>;
          weight = pos - real below
      in sorted_xs ! below + weight * (sorted_xs ! above - sorted_xs ! below))"

definition torch_quantile :: "real list list \<Rightarrow> real list \<Rightarrow> exn + real list list" where
  "torch_quantile samples qs =
     (if samples = [] \<or> hd samples = []
      then Inl ''quantile() input tensor must be non-empty''
      else Inr (map (\<lambda>q. map (\<lambda>j. quantile q (column j samples)) [0..<length (hd samples)]) qs))"

text \<open>
  The environment of Program A: \<^verbatim>\<open>ChronosPipeline.from_pretrained\<close> raises or yields a
  pipeline, and \<^verbatim>\<open>pipeline.predict(context, prediction_length, num_samples)[0]\<close> raises
  or yields the sample trajectories.
\<close>

type_synonym pipeline = "fl list \<Rightarrow> int \<Rightarrow> nat \<Rightarrow> exn + real list list"

text \<open>Program A, \<^verbatim>\<open>main\<close> of \<^verbatim>\<open>scripts/chronos_predict.py\<close>.\<close>

definition chronos_main :: "(string \<Rightarrow> fl option) \<Rightarrow> (exn + pipeline) \<Rightarrow> string \<Rightarrow> int \<Rightarrow> run" where
  "chronos_main py_float from_pretrained prices_arg steps =
     (case parse_prices py_float prices_arg of
        None \<Rightarrow>
          \<lparr>stdout = [ErrorObj ''Invalid price format''], exit_status = 1,
           load_attempted = False, predict_attempted = False\<rparr>
      | Some prices \<Rightarrow>
          (case from_pretrained of
             Inl e \<Rightarrow>
               \<lparr>stdout = [ErrorObj (''Failed to load model: '' @ e)], exit_status = 1,
                load_attempted = True, predict_attempted = False\<rparr>
           | Inr pipeline_predict \<Rightarrow>
               (case pipeline_predict prices steps 20 of
                  Inl e \<Rightarrow>
                    \<lparr>stdout = [ErrorObj (''Prediction failed: '' @ e)], exit_status = 1,
                     load_attempted = True, predict_attempted = True\<rparr>
                | Inr forecast \<Rightarrow>
                    (case torch_quantile forecast [1 / 10, 1 / 2, 9 / 10] of
                       Inl e \<Rightarrow>
                         \<lparr>stdout = [ErrorObj (''Prediction failed: '' @ e)], exit_status = 1,
                          load_attempted = True, predict_attempted = True\<rparr>
                     | Inr bands \<Rightarrow>
                         (let low = bands ! 0; median = bands ! 1; high = bands ! 2
                          in \<lparr>stdout = [ForecastObj median low high], exit_status = 0,
                               load_attempted = True, predict_attempted = True\<rparr>)))))"

section \<open>Predicates of the specification\<close>

text \<open>The inference call a handle makes, and whether \<^verbatim>\<open>predict\<close> takes the six-channel path.\<close>

definition infer_of :: "model_handle \<Rightarrow> tensor \<Rightarrow> exn + fl" where
  "infer_of model = (case model of Torch net \<Rightarrow> net | Keras km sc metadata \<Rightarrow> keras_predict km)"

definition multi_feature :: "model_handle \<Rightarrow> bool" where
  "multi_feature model =
     (case model of
        Torch net \<Rightarrow> False
      | Keras km sc metadata \<Rightarrow> length (input_shape km) = 3 \<and> input_shape km ! 2 = Some 6)"

text \<open>
  A companion scaler transforms a feature matrix row by row: where it does not raise,
  its result has as many rows as its argument.
\<close>

definition keeps_rows :: "scaler option \<Rightarrow> bool" where
  "keeps_rows sc =
     (\<forall>transform x y. sc = Some transform \<longrightarrow> transform x = Some y \<longrightarrow> length y = length x)"

definition scaler_keeps_rows :: "model_handle \<Rightarrow> bool" where
  "scaler_keeps_rows model =
     (case model of
        Torch net \<Rightarrow> True
      | Keras km sc metadata \<Rightarrow> keeps_rows sc)"

definition scaler_of :: "model_handle \<Rightarrow> scaler option" where
  "scaler_of model = (case model of Torch net \<Rightarrow> None | Keras km sc metadata \<Rightarrow> sc)"

text \<open>
  The raw window of the six-channel path when \<open>k\<close> predictions have been made: the
  initial window and the first \<open>k\<close> predictions behind it, without the \<open>k\<close> oldest
  elements.
\<close>

definition raw_window :: "fl list \<Rightarrow> fl list \<Rightarrow> nat \<Rightarrow> fl list" where
  "raw_window window preds k = drop k (window @ take k preds)"

text \<open>No inference call on a window of 60 timesteps raises.\<close>

definition never_raises :: "model_handle \<Rightarrow> bool" where
  "never_raises model = (\<forall>t. length t = 60 \<longrightarrow> (\<exists>v. infer_of model t = Inr v))"

section \<open>Example inputs\<close>

text \<open>
  Concrete inputs for the examples below: the prices \<open>1, 2, ..., 60\<close>; an instance
  of the builtin \<^verbatim>\<open>float\<close> that reads unsigned decimal integers and raises
  on every other token; a PyTorch module that returns 0.5 on every call; a hub that
  holds a PyTorch checkpoint beside a scaler and a metadata file; the argument
  \<^verbatim>\<open>1,1,...,1\<close> of 60 tokens.
\<close>

definition prices_1_to_60 :: "fl list" where
  "prices_1_to_60 = map (\<lambda>n. Num (real n)) [1..<61]"

definition toy_float :: "string \<Rightarrow> fl option" where
  "toy_float s =
     (if s \<noteq> [] \<and> list_all (\<lambda>c. c \<in> set ''0123456789'') s
      then Some (Num (real (foldl (\<lambda>a c. 10 * a + (of_char c - 48)) 0 s)))
      else None)"

definition half_net :: "tensor \<Rightarrow> exn + fl" where
  "half_net t = Inr (Num (1 / 2))"

text \<open>
  The price \<open>1.7 * 10^308\<close>, a module that returns \<open>10^308\<close> on every call, and a
  scaler that drops the first row.
\<close>

definition big_price :: real where
  "big_price = 17 * 10 ^ 307"

definition big_output :: real where
  "big_output = 10 ^ 308"

definition huge_net :: "tensor \<Rightarrow> exn + fl" where
  "huge_net t = Inr (Num big_output)"

definition row_dropping_scaler :: scaler where
  "row_dropping_scaler features = Some (drop 1 features)"

definition torch_hub_env :: lstm_env where
  "torch_hub_env =
     \<lparr>HAS_TF = False,
      list_repo_files = (\<lambda>repo_id. Inr [''model.pth'', ''scaler.pkl'', ''metadata.json'']),
      hf_hub_download = (\<lambda>repo_id filename.
         if filename \<in> set [''model.pth'', ''scaler.pkl'', ''metadata.json'']
         then Inr (''/cache/'' @ filename) else Inl ''404 Not Found''),
      keras_load_model = (\<lambda>path. Inl ''not a Keras file''),
      json_load = (\<lambda>path. Inr ''{}''),
      pickle_load = (\<lambda>path. Inr (\<lambda>features. Some features)),
      torch_load = (\<lambda>path. Inr half_net)\<rparr>"

definition sixty_ones :: string where
  "sixty_ones = join '','' (replicate 60 ''1'')"

text \<open>
  A hub that holds a Keras model beside a scaler and a metadata file, on a machine
  with TensorFlow; the metadata file is not valid JSON, so that loading it raises.
\<close>

definition six_channel_model :: keras_model where
  "six_channel_model = \<lparr>input_shape = [None, Some 60, Some 6], keras_predict = half_net\<rparr>"

definition identity_scaler :: scaler where
  "identity_scaler features = Some features"

definition keras_hub_env :: lstm_env where
  "keras_hub_env =
     \<lparr>HAS_TF = True,
      list_repo_files =
        (\<lambda>repo_id. Inr [''README.md'', ''model.keras'', ''Feature_Scaler.pkl'', ''metadata.json'']),
      hf_hub_download = (\<lambda>repo_id filename.
         if filename \<in> set [''README.md'', ''model.keras'', ''Feature_Scaler.pkl'', ''metadata.json'']
         then Inr (''/cache/'' @ filename) else Inl ''404 Not Found''),
      keras_load_model = (\<lambda>path. Inr six_channel_model),
      json_load = (\<lambda>path. Inl ''Expecting value: line 1 column 1 (char 0)''),
      pickle_load = (\<lambda>path. Inr identity_scaler),
      torch_load = (\<lambda>path. Inl ''invalid load key'')\<rparr>"

text \<open>
  A Chronos pipeline whose \<open>i\<close>-th sample trajectory is constantly \<open>i\<close>.
\<close>

definition ramp_pipeline :: pipeline where
  "ramp_pipeline prices prediction_length num_samples =
     Inr (map (\<lambda>i. replicate (nat prediction_length) (real i)) [0..<num_samples])"

section \<open>Properties of the autoregressive forecaster\<close>

subsection \<open>Results in range\<close>

lemma overflow_threshold_pos: "0 < overflow_threshold"
  by (simp add: overflow_threshold_def)

lemma round_overflow_in_range: "\<bar>x\<bar> < overflow_threshold \<Longrightarrow> round_overflow x = Num x"
  by (auto simp: round_overflow_def)

lemma round_overflow_small: "\<bar>x\<bar> \<le> 2 ^ 64 \<Longrightarrow> round_overflow x = Num x"
proof -
  have "(2::real) ^ 64 < 2 ^ 1024 - 2 ^ 970" by simp
  then show "\<bar>x\<bar> \<le> 2 ^ 64 \<Longrightarrow> round_overflow x = Num x"
    by (auto simp: round_overflow_def overflow_threshold_def)
qed

subsection \<open>The loops\<close>

lemma single_loop_inputs_length:
  "length t = L \<Longrightarrow> 0 < L \<Longrightarrow>
   \<forall>c \<in> set (fst (single_feature_loop infer sc mn n t)). length c = L"
proof (induction n arbitrary: t)
  case 0
  then show ?case by simp
next
  case (Suc n)
  show ?case
  proof (cases "infer t")
    case (Inl e)
    with Suc.prems show ?thesis by simp
  next
    case (Inr v)
    have "length (drop 1 t @ [[v]]) = L" using Suc.prems by simp
    from Suc.IH[OF this Suc.prems(2)] Suc.prems(1) Inr show ?thesis
      by (simp add: case_prod_unfold Let_def)
  qed
qed

lemma single_loop_Inr_length:
  "snd (single_feature_loop infer sc mn n t) = Inr ps \<Longrightarrow> length ps = n"
proof (induction n arbitrary: t ps)
  case 0
  then show ?case by simp
next
  case (Suc n)
  then show ?case
    by (auto simp: case_prod_unfold Let_def split: sum.splits)
qed

lemma single_loop_total:
  assumes "\<forall>t. length t = L \<longrightarrow> (\<exists>v. infer t = Inr v)" "0 < L"
  shows "length t = L \<Longrightarrow>
     \<exists>ps. snd (single_feature_loop infer sc mn n t) = Inr ps \<and> length ps = n
       \<and> length (fst (single_feature_loop infer sc mn n t)) = n"
proof (induction n arbitrary: t)
  case 0
  then show ?case by simp
next
  case (Suc n)
  from assms(1) Suc.prems obtain v where v: "infer t = Inr v" by blast
  have "length (drop 1 t @ [[v]]) = L" using Suc.prems assms(2) by simp
  from Suc.IH[OF this] v show ?case
    by (auto simp: case_prod_unfold Let_def)
qed

lemma single_loop_slides:
  "Suc k < length (fst (single_feature_loop infer sc mn n t)) \<Longrightarrow>
   \<exists>v. infer (fst (single_feature_loop infer sc mn n t) ! k) = Inr v \<and>
       fst (single_feature_loop infer sc mn n t) ! Suc k
         = drop 1 (fst (single_feature_loop infer sc mn n t) ! k) @ [[v]]"
proof (induction n arbitrary: t k)
  case 0
  then show ?case by simp
next
  case (Suc n)
  show ?case
  proof (cases "infer t")
    case (Inl e)
    with Suc.prems show ?thesis by simp
  next
    case (Inr v)
    let ?t' = "drop 1 t @ [[v]]"
    let ?rest = "fst (single_feature_loop infer sc mn n ?t')"
    have calls: "fst (single_feature_loop infer sc mn (Suc n) t) = t # ?rest"
      using Inr by (simp add: case_prod_unfold Let_def)
    show ?thesis
    proof (cases k)
      case 0
      with Suc.prems calls have "0 < length ?rest" by simp
      then have "?rest ! 0 = ?t'" by (cases n) (auto simp: case_prod_unfold Let_def split: sum.splits)
      with 0 calls Inr show ?thesis by simp
    next
      case (Suc j)
      with Suc.prems calls have "Suc j < length ?rest" by simp
      from Suc.IH[OF this] Suc calls show ?thesis by simp
    qed
  qed
qed

lemma single_loop_constant:
  "\<forall>t. infer t = Inr v \<Longrightarrow>
   snd (single_feature_loop infer scale min_val n t) = Inr (replicate n (fadd (fmul v scale) min_val))"
  by (induction n arbitrary: t) (simp_all add: case_prod_unfold Let_def)

lemma single_loop_in_range:
  "\<forall>t v. infer t = Inr v \<longrightarrow>
      (\<exists>r. v = Num r \<and> \<bar>r\<bar> < overflow_threshold \<and> \<bar>r + c\<bar> < overflow_threshold) \<Longrightarrow>
   snd (single_feature_loop infer (Num 1) (Num c) n t) = Inr ps \<Longrightarrow> list_all is_finite ps"
proof (induction n arbitrary: t ps)
  case 0
  then show ?case by simp
next
  case (Suc n)
  show ?case
  proof (cases "infer t")
    case (Inl e)
    with Suc.prems show ?thesis by simp
  next
    case (Inr v)
    with Suc.prems(1) obtain r where v: "v = Num r"
      and r: "\<bar>r\<bar> < overflow_threshold" "\<bar>r + c\<bar> < overflow_threshold"
      by blast
    obtain rest where rest: "snd (single_feature_loop infer (Num 1) (Num c) n (drop 1 t @ [[v]])) = Inr rest"
      and ps: "ps = fadd (fmul v (Num 1)) (Num c) # rest"
      using Suc.prems(2) Inr by (auto simp: case_prod_unfold Let_def split: sum.splits)
    have "fadd (fmul v (Num 1)) (Num c) = Num (r + c)"
      using r by (simp add: v round_overflow_in_range)
    moreover have "list_all is_finite rest"
      using Suc.IH[OF Suc.prems(1) rest] .
    ultimately show ?thesis using ps by simp
  qed
qed

lemma length_synth_features [simp]: "length (synth_features cs) = length cs"
  by (simp add: synth_features_def)

lemma synth_features_nth:
  "i < length cs \<Longrightarrow> synth_features cs ! i = feature_row cs i"
  by (simp add: synth_features_def)

lemma length_standardize [simp]: "length (standardize f) = length f"
  by (simp add: standardize_def)

lemma length_normalize_features:
  "keeps_rows sc \<Longrightarrow> length (normalize_features sc f) = length f"
  by (auto simp: normalize_features_def keeps_rows_def split: option.splits)

lemma multi_loop_inputs_length:
  assumes "keeps_rows sc" "0 < L"
  shows "length cs = L \<Longrightarrow> length t = L \<Longrightarrow>
   \<forall>c \<in> set (fst (multi_feature_loop km sc n cs t)). length c = L"
proof (induction n arbitrary: cs t)
  case 0
  then show ?case by simp
next
  case (Suc n)
  show ?case
  proof (cases "keras_predict km t")
    case (Inl e)
    with Suc.prems show ?thesis by simp
  next
    case (Inr v)
    define rp where "rp = fadd (fmul v (np_std cs)) (np_mean cs)"
    have len: "length (drop 1 cs @ [rp]) = L" using Suc.prems assms(2) by simp
    then have "length (normalize_features sc (synth_features (drop 1 cs @ [rp]))) = L"
      using assms(1) by (simp add: length_normalize_features)
    from Suc.IH[OF len this] Suc.prems Inr show ?thesis
      by (simp add: case_prod_unfold Let_def rp_def)
  qed
qed

lemma multi_loop_Inr_length:
  "snd (multi_feature_loop km sc n cs t) = Inr ps \<Longrightarrow> length ps = n"
proof (induction n arbitrary: cs t ps)
  case 0
  then show ?case by simp
next
  case (Suc n)
  then show ?case
    by (auto simp: case_prod_unfold Let_def split: sum.splits)
qed

lemma multi_loop_total:
  assumes "\<forall>t. length t = L \<longrightarrow> (\<exists>v. keras_predict km t = Inr v)" "0 < L" "keeps_rows sc"
  shows "length cs = L \<Longrightarrow> length t = L \<Longrightarrow>
     \<exists>ps. snd (multi_feature_loop km sc n cs t) = Inr ps \<and> length ps = n
       \<and> length (fst (multi_feature_loop km sc n cs t)) = n"
proof (induction n arbitrary: cs t)
  case 0
  then show ?case by simp
next
  case (Suc n)
  from assms(1) Suc.prems obtain v where v: "keras_predict km t = Inr v" by blast
  define rp where "rp = fadd (fmul v (np_std cs)) (np_mean cs)"
  have len: "length (drop 1 cs @ [rp]) = L" using Suc.prems assms(2) by simp
  then have "length (normalize_features sc (synth_features (drop 1 cs @ [rp]))) = L"
    using assms(3) by (simp add: length_normalize_features)
  from Suc.IH[OF len this] v show ?case
    by (auto simp: case_prod_unfold Let_def rp_def)
qed

lemma raw_window_step:
  assumes "cs \<noteq> []"
  shows "raw_window cs (rp # ps) (Suc j) = raw_window (drop 1 cs @ [rp]) ps j"
  using assms by (cases cs) (simp_all add: raw_window_def)

lemma multi_loop_rebuilds:
  assumes "snd (multi_feature_loop km sc n cs t) = Inr ps"
    and "t = normalize_features sc (synth_features cs)"
    and "cs \<noteq> []" and "k < n"
  shows "fst (multi_feature_loop km sc n cs t) ! k
           = normalize_features sc (synth_features (raw_window cs ps k))
       \<and> (\<exists>v. keras_predict km (fst (multi_feature_loop km sc n cs t) ! k) = Inr v
              \<and> ps ! k = fadd (fmul v (np_std (raw_window cs ps k))) (np_mean (raw_window cs ps k)))"
  using assms
proof (induction n arbitrary: cs t ps k)
  case 0
  then show ?case by simp
next
  case (Suc n)
  show ?case
  proof (cases "keras_predict km t")
    case (Inl e)
    with Suc.prems(1) show ?thesis by simp
  next
    case (Inr v)
    define rp where "rp = fadd (fmul v (np_std cs)) (np_mean cs)"
    define cs' where "cs' = drop 1 cs @ [rp]"
    define t' where "t' = normalize_features sc (synth_features cs')"
    obtain rest where rest: "snd (multi_feature_loop km sc n cs' t') = Inr rest"
      and ps: "ps = rp # rest"
      using Suc.prems(1) Inr
      by (auto simp: case_prod_unfold Let_def rp_def cs'_def t'_def split: sum.splits)
    have calls: "fst (multi_feature_loop km sc (Suc n) cs t)
                   = t # fst (multi_feature_loop km sc n cs' t')"
      using Inr by (simp add: case_prod_unfold Let_def rp_def cs'_def t'_def)
    have ne': "cs' \<noteq> []" by (simp add: cs'_def)
    show ?thesis
    proof (cases k)
      case 0
      have "raw_window cs ps 0 = cs" by (simp add: raw_window_def)
      with 0 calls Inr Suc.prems(2) ps show ?thesis by (simp add: rp_def)
    next
      case (Suc j)
      then have j: "j < n" using Suc.prems(4) by simp
      have rw: "raw_window cs ps (Suc j) = raw_window cs' rest j"
        unfolding ps cs'_def by (rule raw_window_step[OF Suc.prems(3)])
      have nth: "fst (multi_feature_loop km sc (Suc n) cs t) ! k
                   = fst (multi_feature_loop km sc n cs' t') ! j"
        by (simp only: calls Suc nth_Cons_Suc)
      have psk: "ps ! k = rest ! j" by (simp only: ps Suc nth_Cons_Suc)
      have rwk: "raw_window cs ps k = raw_window cs' rest j" using rw Suc by simp
      from Suc.IH[OF rest t'_def ne' j] show ?thesis
        unfolding nth psk rwk .
    qed
  qed
qed

subsection \<open>The normalization parameters\<close>

lemma torch_norm_params_nonempty: "xs \<noteq> [] \<Longrightarrow> \<exists>m s. torch_norm_params xs = Inr (m, s)"
  by (cases xs) (auto simp: torch_norm_params_def)

lemma keras_norm_params_nonempty: "xs \<noteq> [] \<Longrightarrow> \<exists>m s. keras_norm_params xs = Inr (m, s)"
  by (cases xs) (auto simp: keras_norm_params_def)

lemma length_normalized_seq [simp]: "length (normalized_seq cs m s) = length cs"
  by (simp add: normalized_seq_def)

lemma foldl_fmin2_replicate: "foldl fmin2 c (replicate n c) = c"
  by (induction n) (auto simp: fmin2_def)

lemma foldl_fmax2_replicate: "foldl fmax2 c (replicate n c) = c"
  by (induction n) (auto simp: fmax2_def)

lemma np_min_replicate_pos: "0 < n \<Longrightarrow> np_min (replicate n c) = Inr c"
  by (cases n) (simp_all add: foldl_fmin2_replicate)

lemma np_max_replicate_pos: "0 < n \<Longrightarrow> np_max (replicate n c) = Inr c"
  by (cases n) (simp_all add: foldl_fmax2_replicate)

lemma torch_norm_params_const:
  "0 < n \<Longrightarrow> c \<noteq> NaN \<Longrightarrow> torch_norm_params (replicate n c) = Inr (c, Num 1)"
  by (simp add: torch_norm_params_def np_min_replicate_pos np_max_replicate_pos feq_def)

lemma keras_norm_params_const:
  "0 < n \<Longrightarrow> c \<noteq> NaN \<Longrightarrow> keras_norm_params (replicate n c) = Inr (c, Num 1)"
  by (simp add: keras_norm_params_def np_min_replicate_pos np_max_replicate_pos feq_def fne_def)

lemma np_min_1_to_60: "np_min prices_1_to_60 = Inr (Num 1)"
  by code_simp

lemma np_max_1_to_60: "np_max prices_1_to_60 = Inr (Num 60)"
  by code_simp

lemma torch_1_to_60: "torch_norm_params prices_1_to_60 = Inr (Num 1, Num 59)"
  by (simp add: torch_norm_params_def np_min_1_to_60 np_max_1_to_60 feq_def fsub_def
        round_overflow_small)

lemma keras_1_to_60: "keras_norm_params prices_1_to_60 = Inr (Num 1, Num 59)"
  by (simp add: keras_norm_params_def np_min_1_to_60 np_max_1_to_60 feq_def fne_def fsub_def
        round_overflow_small)


lemma drop_1_to_60: "drop (length prices_1_to_60 - 60) prices_1_to_60 = prices_1_to_60"
  by (simp add: prices_1_to_60_def)

subsection \<open>Number of predictions and length of the window\<close>

lemma predict_trace_cases:
  assumes "60 \<le> length prices"
  obtains (multi) km sc md where "model = Keras km sc md" "multi_feature model"
      "predict_trace model prices steps =
         multi_feature_loop km sc (nat steps) (drop (length prices - 60) prices)
           (normalize_features sc (synth_features (drop (length prices - 60) prices)))"
  | (single) min_val scale where "\<not> multi_feature model"
      "predict_trace model prices steps =
         single_feature_loop (infer_of model) scale min_val (nat steps)
           (normalized_seq (drop (length prices - 60) prices) min_val scale)"
proof (cases model)
  case (Torch net)
  let ?w = "drop (length prices - 60) prices"
  have "?w \<noteq> []" using assms by auto
  then obtain m s where "torch_norm_params ?w = Inr (m, s)"
    using torch_norm_params_nonempty by blast
  then have "predict_trace model prices steps =
         single_feature_loop (infer_of model) s m (nat steps) (normalized_seq ?w m s)"
    using Torch by (simp add: predict_trace_def SEQUENCE_LENGTH_def infer_of_def Let_def)
  moreover have "\<not> multi_feature model" using Torch by (simp add: multi_feature_def)
  ultimately show ?thesis using single by blast
next
  case (Keras km sc md)
  let ?w = "drop (length prices - 60) prices"
  show ?thesis
  proof (cases "multi_feature model")
    case True
    then have "predict_trace model prices steps =
         multi_feature_loop km sc (nat steps) ?w (normalize_features sc (synth_features ?w))"
      using Keras by (simp add: predict_trace_def SEQUENCE_LENGTH_def multi_feature_def Let_def)
    then show ?thesis using multi Keras True by blast
  next
    case False
    have "?w \<noteq> []" using assms by auto
    then obtain m s where "keras_norm_params ?w = Inr (m, s)"
      using keras_norm_params_nonempty by blast
    then have "predict_trace model prices steps =
         single_feature_loop (infer_of model) s m (nat steps) (normalized_seq ?w m s)"
      using Keras False
      by (auto simp add: predict_trace_def SEQUENCE_LENGTH_def infer_of_def multi_feature_def Let_def)
    then show ?thesis using single False by blast
  qed
qed

lemma predict_trace_single:
  assumes "\<not> multi_feature model"
    and "torch_norm_params (drop (length prices - 60) prices) = Inr (min_val, scale)"
    and "keras_norm_params (drop (length prices - 60) prices) = Inr (min_val, scale)"
  shows "predict_trace model prices steps =
         single_feature_loop (infer_of model) scale min_val (nat steps)
           (normalized_seq (drop (length prices - 60) prices) min_val scale)"
  using assms
  by (cases model)
     (auto simp: predict_trace_def SEQUENCE_LENGTH_def infer_of_def multi_feature_def Let_def)

lemma predict_trace_nonpositive:
  assumes "steps \<le> 0" and "prices \<noteq> []"
  shows "predict_trace model prices steps = ([], Inr [])"
proof -
  let ?w = "drop (length prices - SEQUENCE_LENGTH) prices"
  have "0 < length prices" using assms(2) by simp
  then have "length prices - SEQUENCE_LENGTH < length prices" by (simp add: SEQUENCE_LENGTH_def)
  then have ne: "?w \<noteq> []" by simp
  obtain tm ts where t: "torch_norm_params ?w = Inr (tm, ts)"
    using torch_norm_params_nonempty[OF ne] by blast
  obtain km ks where k: "keras_norm_params ?w = Inr (km, ks)"
    using keras_norm_params_nonempty[OF ne] by blast
  have n: "nat steps = 0" using assms(1) by simp
  show ?thesis
    by (cases model) (simp_all add: predict_trace_def Let_def t k n)
qed

lemma keras_norm_params_eq: "keras_norm_params cs = torch_norm_params cs"
  by (simp add: keras_norm_params_def torch_norm_params_def fne_def split: sum.splits)

lemma single_loop_first_input:
  "0 < n \<Longrightarrow> fst (single_feature_loop infer scale min_val n t) ! 0 = t"
  by (cases n) (auto simp: case_prod_unfold Let_def split: sum.splits)

lemma single_loop_preds:
  assumes "snd (single_feature_loop infer scale min_val n t) = Inr ps" and "k < n"
  shows "\<exists>v. infer (fst (single_feature_loop infer scale min_val n t) ! k) = Inr v
             \<and> ps ! k = fadd (fmul v scale) min_val"
  using assms
proof (induction n arbitrary: t ps k)
  case 0
  then show ?case by simp
next
  case (Suc n)
  show ?case
  proof (cases "infer t")
    case (Inl e)
    with Suc.prems(1) show ?thesis by simp
  next
    case (Inr v)
    define t' where "t' = drop 1 t @ [[v]]"
    obtain rest where rest: "snd (single_feature_loop infer scale min_val n t') = Inr rest"
      and ps: "ps = fadd (fmul v scale) min_val # rest"
      using Suc.prems(1) Inr
      by (auto simp: case_prod_unfold Let_def t'_def split: sum.splits)
    have calls: "fst (single_feature_loop infer scale min_val (Suc n) t)
                   = t # fst (single_feature_loop infer scale min_val n t')"
      using Inr by (simp add: case_prod_unfold Let_def t'_def)
    show ?thesis
    proof (cases k)
      case 0
      with calls Inr ps show ?thesis by simp
    next
      case (Suc j)
      then have j: "j < n" using Suc.prems(2) by simp
      have nth: "fst (single_feature_loop infer scale min_val (Suc n) t) ! k
                   = fst (single_feature_loop infer scale min_val n t') ! j"
        by (simp only: calls Suc nth_Cons_Suc)
      have psk: "ps ! k = rest ! j" by (simp only: ps Suc nth_Cons_Suc)
      from Suc.IH[OF rest j] show ?thesis unfolding nth psk .
    qed
  qed
qed

lemma predict_trace_single_params:
  assumes "60 \<le> length prices" and "\<not> multi_feature model"
  shows "\<exists>min_val scale.
           torch_norm_params (drop (length prices - 60) prices) = Inr (min_val, scale)
         \<and> predict_trace model prices steps =
             single_feature_loop (infer_of model) scale min_val (nat steps)
               (normalized_seq (drop (length prices - 60) prices) min_val scale)"
proof -
  let ?w = "drop (length prices - 60) prices"
  have "?w \<noteq> []" using assms(1) by auto
  then obtain m s where t: "torch_norm_params ?w = Inr (m, s)"
    using torch_norm_params_nonempty by blast
  then have k: "keras_norm_params ?w = Inr (m, s)" by (simp add: keras_norm_params_eq)
  from predict_trace_single[OF assms(2) t k] t show ?thesis by blast
qed

text \<open>
  C1, amended. For every model handle whose companion scaler, if there is one, keeps
  the number of rows, every price list of at least 60 elements and every
  \<open>steps \<ge> 1\<close>: each input tensor of an inference call has 60 timesteps; when
  \<^verbatim>\<open>predict\<close> returns, it returns exactly \<open>steps\<close> values; it does return, after
  exactly \<open>steps\<close> inference calls, when no inference call raises. On the
  single-feature paths the first input is the window normalized with its own minimum
  and scale, each next input is the previous one without its oldest timestep and with
  the new normalized prediction at its end, and each prediction is the model's output
  times that scale plus that minimum. On the six-channel path
  the raw window drops its oldest price and takes the new denormalized prediction
  (the model's output times the standard deviation plus the mean of the raw window),
  and every input is the 60 feature rows rebuilt and normalized from the raw window.
\<close>

theorem predict_steps_and_window:
  assumes "60 \<le> length prices" and "1 \<le> steps" and "scaler_keeps_rows model"
  shows "(\<forall>t \<in> set (inference_inputs model prices steps). length t = 60)
       \<and> (\<forall>preds. predict model prices steps = Inr preds \<longrightarrow> int (length preds) = steps)
       \<and> (never_raises model \<longrightarrow>
            (\<exists>preds. predict model prices steps = Inr preds \<and> int (length preds) = steps
                 \<and> int (length (inference_inputs model prices steps)) = steps))
       \<and> (\<not> multi_feature model \<longrightarrow>
            (\<forall>k. Suc k < length (inference_inputs model prices steps) \<longrightarrow>
               (\<exists>v. infer_of model (inference_inputs model prices steps ! k) = Inr v
                  \<and> inference_inputs model prices steps ! Suc k
                      = drop 1 (inference_inputs model prices steps ! k) @ [[v]])))
       \<and> (\<not> multi_feature model \<longrightarrow>
            (\<exists>min_val scale.
               torch_norm_params (drop (length prices - 60) prices) = Inr (min_val, scale)
               \<and> inference_inputs model prices steps ! 0
                   = normalized_seq (drop (length prices - 60) prices) min_val scale
               \<and> (\<forall>preds k. predict model prices steps = Inr preds \<longrightarrow> k < length preds \<longrightarrow>
                      (\<exists>v. infer_of model (inference_inputs model prices steps ! k) = Inr v
                         \<and> preds ! k = fadd (fmul v scale) min_val))))
       \<and> (multi_feature model \<longrightarrow>
            (\<forall>preds k. predict model prices steps = Inr preds \<longrightarrow> k < length preds \<longrightarrow>
               inference_inputs model prices steps ! k
                 = normalize_features (scaler_of model)
                     (synth_features (raw_window (drop (length prices - 60) prices) preds k))
               \<and> (\<exists>v. infer_of model (inference_inputs model prices steps ! k) = Inr v
                    \<and> preds ! k
                        = fadd (fmul v (np_std (raw_window (drop (length prices - 60) prices) preds k)))
                            (np_mean (raw_window (drop (length prices - 60) prices) preds k)))))"
proof -
  let ?w = "drop (length prices - 60) prices"
  have lw: "length ?w = 60" using assms(1) by simp
  have st: "int (nat steps) = steps" using assms(2) by simp
  from assms(1) show ?thesis
  proof (cases rule: predict_trace_cases[where model = model and steps = steps])
    case (multi km sc md)
    have kr: "keeps_rows sc" using assms(3) multi(1) by (simp add: scaler_keeps_rows_def)
    have lt: "length (normalize_features sc (synth_features ?w)) = 60"
      using kr lw by (simp add: length_normalize_features)
    have a: "\<forall>t \<in> set (inference_inputs model prices steps). length t = 60"
      unfolding inference_inputs_def multi(3)
      by (rule multi_loop_inputs_length[OF kr _ lw lt]) simp
    have b: "\<forall>preds. predict model prices steps = Inr preds \<longrightarrow> int (length preds) = steps"
      unfolding predict_def multi(3) using multi_loop_Inr_length st by fastforce
    have c: "never_raises model \<longrightarrow>
            (\<exists>preds. predict model prices steps = Inr preds \<and> int (length preds) = steps
                 \<and> int (length (inference_inputs model prices steps)) = steps)"
    proof
      assume "never_raises model"
      then have "\<forall>t. length t = 60 \<longrightarrow> (\<exists>v. keras_predict km t = Inr v)"
        using multi(1) by (simp add: never_raises_def infer_of_def)
      from multi_loop_total[OF this _ kr lw lt, of "nat steps"] st
      show "\<exists>preds. predict model prices steps = Inr preds \<and> int (length preds) = steps
                 \<and> int (length (inference_inputs model prices steps)) = steps"
        unfolding predict_def inference_inputs_def multi(3) by auto
    qed
    have ne: "?w \<noteq> []" using lw by auto
    have io: "infer_of model = keras_predict km" "scaler_of model = sc"
      using multi(1) by (simp_all add: infer_of_def scaler_of_def)
    have e: "inference_inputs model prices steps ! k
                 = normalize_features (scaler_of model) (synth_features (raw_window ?w preds k))
               \<and> (\<exists>v. infer_of model (inference_inputs model prices steps ! k) = Inr v
                    \<and> preds ! k = fadd (fmul v (np_std (raw_window ?w preds k)))
                                     (np_mean (raw_window ?w preds k)))"
      if p: "predict model prices steps = Inr preds" and k: "k < length preds" for preds k
    proof -
      have r: "snd (multi_feature_loop km sc (nat steps) ?w
                      (normalize_features sc (synth_features ?w))) = Inr preds"
        using p unfolding predict_def multi(3) .
      then have "length preds = nat steps" by (rule multi_loop_Inr_length)
      with k have k': "k < nat steps" by simp
      from multi_loop_rebuilds[OF r refl ne k'] show ?thesis
        unfolding inference_inputs_def multi(3) io .
    qed
    from a b c e multi(2) show ?thesis by blast
  next
    case (single min_val scale)
    have lt: "length (normalized_seq ?w min_val scale) = 60" using lw by simp
    have a: "\<forall>t \<in> set (inference_inputs model prices steps). length t = 60"
      unfolding inference_inputs_def single(2)
      by (rule single_loop_inputs_length[OF lt]) simp
    have b: "\<forall>preds. predict model prices steps = Inr preds \<longrightarrow> int (length preds) = steps"
      unfolding predict_def single(2) using single_loop_Inr_length st by fastforce
    have c: "never_raises model \<longrightarrow>
            (\<exists>preds. predict model prices steps = Inr preds \<and> int (length preds) = steps
                 \<and> int (length (inference_inputs model prices steps)) = steps)"
    proof
      assume "never_raises model"
      then have "\<forall>t. length t = 60 \<longrightarrow> (\<exists>v. infer_of model t = Inr v)"
        by (simp add: never_raises_def)
      from single_loop_total[OF this _ lt, of scale min_val "nat steps"] st
      show "\<exists>preds. predict model prices steps = Inr preds \<and> int (length preds) = steps
                 \<and> int (length (inference_inputs model prices steps)) = steps"
        unfolding predict_def inference_inputs_def single(2) by auto
    qed
    have d: "\<forall>k. Suc k < length (inference_inputs model prices steps) \<longrightarrow>
               (\<exists>v. infer_of model (inference_inputs model prices steps ! k) = Inr v
                  \<and> inference_inputs model prices steps ! Suc k
                      = drop 1 (inference_inputs model prices steps ! k) @ [[v]])"
      unfolding inference_inputs_def single(2) using single_loop_slides by blast
    obtain m s where tp: "torch_norm_params ?w = Inr (m, s)"
      and tr: "predict_trace model prices steps =
                 single_feature_loop (infer_of model) s m (nat steps) (normalized_seq ?w m s)"
      using predict_trace_single_params[OF assms(1) single(1)] by blast
    have pos: "0 < nat steps" using assms(2) by simp
    have f0: "inference_inputs model prices steps ! 0 = normalized_seq ?w m s"
      unfolding inference_inputs_def tr using pos by (rule single_loop_first_input)
    have g: "\<exists>v. infer_of model (inference_inputs model prices steps ! k) = Inr v
                \<and> preds ! k = fadd (fmul v s) m"
      if p: "predict model prices steps = Inr preds" and k: "k < length preds" for preds k
    proof -
      have r: "snd (single_feature_loop (infer_of model) s m (nat steps)
                      (normalized_seq ?w m s)) = Inr preds"
        using p unfolding predict_def tr .
      then have "length preds = nat steps" by (rule single_loop_Inr_length)
      with k have "k < nat steps" by simp
      from single_loop_preds[OF r this] show ?thesis
        unfolding inference_inputs_def tr .
    qed
    have h: "\<exists>min_val scale.
               torch_norm_params ?w = Inr (min_val, scale)
               \<and> inference_inputs model prices steps ! 0 = normalized_seq ?w min_val scale
               \<and> (\<forall>preds k. predict model prices steps = Inr preds \<longrightarrow> k < length preds \<longrightarrow>
                      (\<exists>v. infer_of model (inference_inputs model prices steps ! k) = Inr v
                         \<and> preds ! k = fadd (fmul v scale) min_val))"
      using tp f0 g by blast
    from a b c d h single(1) show ?thesis by blast
  qed
qed

theorem predict_steps_and_window_witness:
  "60 \<le> length prices_1_to_60 \<and> (1::int) \<le> 3
   \<and> scaler_keeps_rows (Torch half_net) \<and> never_raises (Torch half_net)
   \<and> \<not> multi_feature (Torch half_net)
   \<and> list_all (\<lambda>t. length t = 60) (inference_inputs (Torch half_net) prices_1_to_60 3)
   \<and> (\<exists>preds. predict (Torch half_net) prices_1_to_60 3 = Inr preds \<and> int (length preds) = 3)
   \<and> scaler_keeps_rows (Keras six_channel_model (Some identity_scaler) None)
   \<and> never_raises (Keras six_channel_model (Some identity_scaler) None)
   \<and> multi_feature (Keras six_channel_model (Some identity_scaler) None)
   \<and> list_all (\<lambda>t. length t = 60)
         (inference_inputs (Keras six_channel_model (Some identity_scaler) None) prices_1_to_60 3)
   \<and> (\<exists>preds. predict (Keras six_channel_model (Some identity_scaler) None) prices_1_to_60 3
                  = Inr preds \<and> int (length preds) = 3)"
proof -
  let ?km = "Keras six_channel_model (Some identity_scaler) None"
  have h1: "60 \<le> length prices_1_to_60" by (simp add: prices_1_to_60_def)
  have h2: "(1::int) \<le> 3" by simp
  have t3: "scaler_keeps_rows (Torch half_net)" by (simp add: scaler_keeps_rows_def)
  have t4: "never_raises (Torch half_net)"
    by (simp add: never_raises_def infer_of_def half_net_def)
  have t5: "\<not> multi_feature (Torch half_net)" by (simp add: multi_feature_def)
  have k3: "scaler_keeps_rows ?km"
    by (auto simp: scaler_keeps_rows_def keeps_rows_def identity_scaler_def)
  have k4: "never_raises ?km"
    by (simp add: never_raises_def infer_of_def six_channel_model_def half_net_def)
  have k5: "multi_feature ?km" by (simp add: multi_feature_def six_channel_model_def)
  from predict_steps_and_window[OF h1 h2 t3] predict_steps_and_window[OF h1 h2 k3]
    h1 h2 t3 t4 t5 k3 k4 k5
  show ?thesis unfolding list_all_iff by blast
qed

lemma six_channel_two_inputs:
  "inference_inputs (Keras six_channel_model (Some identity_scaler) None) prices_1_to_60 2
     = [synth_features prices_1_to_60,
        synth_features (drop 1 prices_1_to_60
           @ [fadd (fmul (Num (1 / 2)) (np_std prices_1_to_60)) (np_mean prices_1_to_60)])]"
proof -
  have n: "nat 2 = Suc (Suc 0)" by simp
  show ?thesis
    unfolding inference_inputs_def predict_trace_def SEQUENCE_LENGTH_def drop_1_to_60 n
    by (simp add: six_channel_model_def identity_scaler_def normalize_features_def half_net_def
          Let_def case_prod_unfold)
qed

lemma row_dropping_first_input:
  "inference_inputs (Keras six_channel_model (Some row_dropping_scaler) None) prices_1_to_60 1
     = [drop 1 (synth_features prices_1_to_60)]"
proof -
  have n: "nat 1 = Suc 0" by simp
  show ?thesis
    unfolding inference_inputs_def predict_trace_def SEQUENCE_LENGTH_def drop_1_to_60 n
    by (simp add: six_channel_model_def row_dropping_scaler_def normalize_features_def half_net_def
          Let_def case_prod_unfold)
qed

text \<open>
  C1 as stated fails on the six-channel path. With the prices \<open>1, 2, ..., 60\<close>
  and the identity as scaler, the first row of the second input is not the second row
  of the first input (the price change is recomputed: 0 instead of 1), so the second
  input is not the first one slid by one timestep. And a scaler that drops a row makes
  the first input 59 timesteps long.
\<close>

theorem six_channel_window_rebuilt_counterexample:
  "multi_feature (Keras six_channel_model (Some identity_scaler) None)
   \<and> inference_inputs (Keras six_channel_model (Some identity_scaler) None) prices_1_to_60 2 ! 0 ! 1
       = [Num 2, Num 1, Num 2, Num 2, Num 2, Num 1]
   \<and> inference_inputs (Keras six_channel_model (Some identity_scaler) None) prices_1_to_60 2 ! 1 ! 0
       = [Num 2, Num 0, Num 2, Num 2, Num 2, Num 1]
   \<and> inference_inputs (Keras six_channel_model (Some identity_scaler) None) prices_1_to_60 2 ! 1
       \<noteq> drop 1 (inference_inputs (Keras six_channel_model (Some identity_scaler) None)
                     prices_1_to_60 2 ! 0) @ [[Num (1 / 2)]]
   \<and> length (inference_inputs (Keras six_channel_model (Some row_dropping_scaler) None)
               prices_1_to_60 1 ! 0) = 59"
proof -
  let ?w = "prices_1_to_60"
  let ?rp = "fadd (fmul (Num (1 / 2)) (np_std ?w)) (np_mean ?w)"
  let ?w' = "drop 1 ?w @ [?rp]"
  have lw: "length ?w = 60" by (simp add: prices_1_to_60_def)
  have w0: "?w ! 0 = Num 1" by code_simp
  have w1: "?w ! 1 = Num 2" by code_simp
  have w'0: "?w' ! 0 = Num 2" using lw w1 by (simp add: nth_append)
  have r1: "synth_features ?w ! 1 = [Num 2, Num 1, Num 2, Num 2, Num 2, Num 1]"
    using lw w0 w1 by (simp add: synth_features_nth feature_row_def Let_def fsub_def round_overflow_small)
  have r0: "synth_features ?w' ! 0 = [Num 2, Num 0, Num 2, Num 2, Num 2, Num 1]"
    using lw w'0 by (simp add: synth_features_nth feature_row_def Let_def)
  have sl: "(drop 1 (synth_features ?w) @ [[Num (1 / 2)]]) ! 0 = synth_features ?w ! 1"
    using lw by (simp add: nth_append)
  have ne: "synth_features ?w' \<noteq> drop 1 (synth_features ?w) @ [[Num (1 / 2)]]"
  proof
    assume "synth_features ?w' = drop 1 (synth_features ?w) @ [[Num (1 / 2)]]"
    then have "synth_features ?w' ! 0 = (drop 1 (synth_features ?w) @ [[Num (1 / 2)]]) ! 0"
      by simp
    with r0 r1 sl show False by simp
  qed
  have mf: "multi_feature (Keras six_channel_model (Some identity_scaler) None)"
    by (simp add: multi_feature_def six_channel_model_def)
  have l59: "length (drop 1 (synth_features ?w)) = 59" using lw by simp
  from mf r1 r0 ne l59 show ?thesis
    unfolding six_channel_two_inputs row_dropping_first_input by simp
qed

subsection \<open>Dependence on the last 60 prices\<close>

text \<open>
  C9. The prediction depends only on the last 60 prices: two price lists that end in
  the same 60 elements give the same predictions (and the same inference calls),
  whatever stands before those 60 elements.
\<close>

theorem predict_depends_on_last_60:
  "length w = 60 \<Longrightarrow>
   predict model (a @ w) steps = predict model (b @ w) steps
   \<and> inference_inputs model (a @ w) steps = inference_inputs model (b @ w) steps"
  by (simp add: predict_def inference_inputs_def predict_trace_def SEQUENCE_LENGTH_def)

theorem predict_depends_on_last_60_witness:
  "length prices_1_to_60 = 60
   \<and> predict (Torch half_net) ([Num 5, PosInf] @ prices_1_to_60) 3
       = predict (Torch half_net) ([] @ prices_1_to_60) 3"
proof -
  have h: "length prices_1_to_60 = 60" by (simp add: prices_1_to_60_def)
  from predict_depends_on_last_60[OF h, of "Torch half_net" "[Num 5, PosInf]" 3 "[]"] h
  show ?thesis by blast
qed

subsection \<open>Fixed normalization\<close>

text \<open>
  C3. On the single-feature path, with the prices \<open>1, 2, ..., 60\<close>, \<open>steps = 3\<close>
  and a model that returns 0.5 on every call, the three predictions are each
  \<open>0.5 * scale + min\<close> for the \<open>min = 1\<close> and \<open>scale = 59\<close> of the initial window,
  that is 30.5.
\<close>

theorem fixed_normalization_example:
  assumes "\<not> multi_feature model" and "\<forall>t. infer_of model t = Inr (Num (1 / 2))"
  shows "torch_norm_params prices_1_to_60 = Inr (Num 1, Num 59)
       \<and> keras_norm_params prices_1_to_60 = Inr (Num 1, Num 59)
       \<and> predict model prices_1_to_60 3
           = Inr [fadd (fmul (Num (1 / 2)) (Num 59)) (Num 1),
                  fadd (fmul (Num (1 / 2)) (Num 59)) (Num 1),
                  fadd (fmul (Num (1 / 2)) (Num 59)) (Num 1)]
       \<and> fadd (fmul (Num (1 / 2)) (Num 59)) (Num 1) = Num (61 / 2)"
proof -
  have tr: "predict_trace model prices_1_to_60 3 =
         single_feature_loop (infer_of model) (Num 59) (Num 1) (nat 3)
           (normalized_seq prices_1_to_60 (Num 1) (Num 59))"
    using predict_trace_single[OF assms(1), of prices_1_to_60 "Num 1" "Num 59" 3]
    by (simp only: drop_1_to_60 torch_1_to_60 keras_1_to_60)
  have "predict model prices_1_to_60 3
          = Inr (replicate (nat 3) (fadd (fmul (Num (1 / 2)) (Num 59)) (Num 1)))"
    unfolding predict_def tr by (rule single_loop_constant[OF assms(2)])
  moreover have "replicate (nat 3) x = [x, x, x]" for x :: fl
    by (simp add: numeral_3_eq_3)
  ultimately show ?thesis using torch_1_to_60 keras_1_to_60
    by (simp add: round_overflow_small)
qed

theorem fixed_normalization_example_witness:
  "\<not> multi_feature (Torch half_net)
   \<and> predict (Torch half_net) prices_1_to_60 3 = Inr [Num (61 / 2), Num (61 / 2), Num (61 / 2)]"
proof -
  have h1: "\<not> multi_feature (Torch half_net)" by (simp add: multi_feature_def)
  have h2: "\<forall>t. infer_of (Torch half_net) t = Inr (Num (1 / 2))"
    by (simp add: infer_of_def half_net_def)
  from fixed_normalization_example[OF h1 h2] h1 show ?thesis by simp
qed

subsection \<open>Constant windows\<close>

text \<open>
  C4, amended. For a window of 60 equal finite prices on the single-feature paths,
  \<open>scale\<close> is 1.0 and the normalized window is all zero (no division by zero). Every
  prediction returned is finite when each output \<open>v\<close> of the model is finite and
  \<open>v + price\<close> stays below the overflow bound of doubles, and \<^verbatim>\<open>predict\<close> returns
  when no inference call raises.
\<close>

theorem constant_window_finite:
  assumes "drop (length prices - 60) prices = replicate 60 (Num c)"
    and "\<not> multi_feature model"
    and "\<forall>t v. infer_of model t = Inr v \<longrightarrow>
           (\<exists>r. v = Num r \<and> \<bar>r\<bar> < overflow_threshold \<and> \<bar>r + c\<bar> < overflow_threshold)"
  shows "torch_norm_params (replicate 60 (Num c)) = Inr (Num c, Num 1)
       \<and> keras_norm_params (replicate 60 (Num c)) = Inr (Num c, Num 1)
       \<and> normalized_seq (replicate 60 (Num c)) (Num c) (Num 1) = replicate 60 [Num 0]
       \<and> (\<forall>preds. predict model prices steps = Inr preds \<longrightarrow> list_all is_finite preds)
       \<and> (never_raises model \<longrightarrow> (\<exists>preds. predict model prices steps = Inr preds))"
proof -
  have tp: "torch_norm_params (replicate 60 (Num c)) = Inr (Num c, Num 1)"
    by (rule torch_norm_params_const) simp_all
  have kp: "keras_norm_params (replicate 60 (Num c)) = Inr (Num c, Num 1)"
    by (rule keras_norm_params_const) simp_all
  have z: "round_overflow 0 = Num 0"
    using overflow_threshold_pos by (simp add: round_overflow_in_range)
  have ns: "normalized_seq (replicate 60 (Num c)) (Num c) (Num 1) = replicate 60 [Num 0]"
    by (simp add: normalized_seq_def fsub_def z)
  have tr: "predict_trace model prices steps =
         single_feature_loop (infer_of model) (Num 1) (Num c) (nat steps) (replicate 60 [Num 0])"
    using predict_trace_single[OF assms(2), of prices "Num c" "Num 1" steps] tp kp ns
    by (simp only: assms(1))
  have fin: "\<forall>preds. predict model prices steps = Inr preds \<longrightarrow> list_all is_finite preds"
  proof (intro allI impI)
    fix preds
    assume "predict model prices steps = Inr preds"
    then have "snd (single_feature_loop (infer_of model) (Num 1) (Num c) (nat steps)
                      (replicate 60 [Num 0])) = Inr preds"
      unfolding predict_def tr .
    from single_loop_in_range[OF assms(3) this] show "list_all is_finite preds" .
  qed
  have tot: "never_raises model \<longrightarrow> (\<exists>preds. predict model prices steps = Inr preds)"
  proof
    assume "never_raises model"
    then have "\<forall>t. length t = 60 \<longrightarrow> (\<exists>v. infer_of model t = Inr v)"
      by (simp add: never_raises_def)
    from single_loop_total[OF this, of "replicate 60 [Num 0]" "Num 1" "Num c" "nat steps"]
    show "\<exists>preds. predict model prices steps = Inr preds"
      unfolding predict_def tr by auto
  qed
  from tp kp ns fin tot show ?thesis by blast
qed

theorem constant_window_finite_witness:
  "drop (length (replicate 60 (Num 7)) - 60) (replicate 60 (Num 7)) = replicate 60 (Num 7)
   \<and> \<not> multi_feature (Torch half_net)
   \<and> half_net [] = Inr (Num (1 / 2))
   \<and> \<bar>1 / 2 :: real\<bar> < overflow_threshold \<and> \<bar>1 / 2 + 7 :: real\<bar> < overflow_threshold
   \<and> torch_norm_params (replicate 60 (Num 7)) = Inr (Num 7, Num 1)
   \<and> (\<exists>preds. predict (Torch half_net) (replicate 60 (Num 7)) 2 = Inr preds \<and> list_all is_finite preds)"
proof -
  have h1: "drop (length (replicate 60 (Num 7)) - 60) (replicate 60 (Num 7)) = replicate 60 (Num 7)"
    by simp
  have h2: "\<not> multi_feature (Torch half_net)" by (simp add: multi_feature_def)
  have r: "\<bar>1 / 2 :: real\<bar> < overflow_threshold" "\<bar>1 / 2 + 7 :: real\<bar> < overflow_threshold"
    by (simp_all add: overflow_threshold_def)
  have h3: "\<forall>t v. infer_of (Torch half_net) t = Inr v \<longrightarrow>
           (\<exists>r. v = Num r \<and> \<bar>r\<bar> < overflow_threshold \<and> \<bar>r + 7\<bar> < overflow_threshold)"
  proof (intro allI impI)
    fix t v
    assume "infer_of (Torch half_net) t = Inr v"
    then have "v = Num (1 / 2)" by (simp add: infer_of_def half_net_def)
    with r show "\<exists>r. v = Num r \<and> \<bar>r\<bar> < overflow_threshold \<and> \<bar>r + 7\<bar> < overflow_threshold"
      by blast
  qed
  have h4: "never_raises (Torch half_net)"
    by (simp add: never_raises_def infer_of_def half_net_def)
  have h5: "half_net [] = Inr (Num (1 / 2))" by (simp add: half_net_def)
  from constant_window_finite[OF h1 h2 h3, of 2] h1 h2 h4 h5 r show ?thesis by blast
qed

lemma predict_constant_one_step:
  assumes "\<forall>t. net t = Inr v" and "c \<noteq> NaN"
  shows "predict (Torch net) (replicate 60 c) 1 = Inr [fadd (fmul v (Num 1)) c]"
proof -
  have tc: "torch_norm_params (replicate 60 c) = Inr (c, Num 1)"
    using assms(2) by (intro torch_norm_params_const) simp_all
  have n: "nat 1 = Suc 0" by simp
  show ?thesis
    unfolding predict_def predict_trace_def SEQUENCE_LENGTH_def n
    by (simp add: tc assms(1) del: fadd.simps fmul.simps)
qed

text \<open>
  C4 as stated fails on a constant finite window: with 60 times the price
  \<open>1.7 * 10^308\<close> \<open>scale\<close> is 1.0, the model's output \<open>10^308\<close> is finite and the
  prediction \<open>10^308 * 1.0 + 1.7 * 10^308\<close> overflows to \<^verbatim>\<open>inf\<close>. It fails as well
  for the window of 60 times \<^verbatim>\<open>inf\<close>, which \<^verbatim>\<open>--prices inf,inf,...\<close> gives: the
  output 0.5 is finite and the prediction \<open>0.5 * 1.0 + inf\<close> is \<^verbatim>\<open>inf\<close>.
\<close>

theorem constant_window_infinite_counterexample:
  "torch_norm_params (replicate 60 (Num big_price)) = Inr (Num big_price, Num 1)
   \<and> huge_net (normalized_seq (replicate 60 (Num big_price)) (Num big_price) (Num 1))
       = Inr (Num big_output)
   \<and> is_finite (Num big_price) \<and> is_finite (Num big_output)
   \<and> big_price < overflow_threshold \<and> big_output < overflow_threshold
   \<and> predict (Torch huge_net) (replicate 60 (Num big_price)) 1 = Inr [PosInf]
   \<and> torch_norm_params (replicate 60 PosInf) = Inr (PosInf, Num 1)
   \<and> is_finite (Num (1 / 2))
   \<and> predict (Torch half_net) (replicate 60 PosInf) 1 = Inr [PosInf]
   \<and> \<not> is_finite PosInf"
proof -
  have tc: "torch_norm_params (replicate 60 (Num big_price)) = Inr (Num big_price, Num 1)"
    by (rule torch_norm_params_const) simp_all
  have hn: "huge_net (normalized_seq (replicate 60 (Num big_price)) (Num big_price) (Num 1))
              = Inr (Num big_output)"
    by (simp only: huge_net_def)
  have lt: "big_price < overflow_threshold" "big_output < overflow_threshold"
    by (simp_all add: big_price_def big_output_def overflow_threshold_def)
  have "overflow_threshold \<le> big_output * 1 + big_price"
    by (simp add: big_price_def big_output_def overflow_threshold_def)
  moreover have "\<bar>big_output * 1\<bar> < overflow_threshold"
    by (simp add: big_output_def overflow_threshold_def)
  ultimately have ov: "fadd (fmul (Num big_output) (Num 1)) (Num big_price) = PosInf"
    by (simp only: fmul.simps fadd.simps round_overflow_in_range) (simp only: round_overflow_def if_True)
  have "predict (Torch huge_net) (replicate 60 (Num big_price)) 1
          = Inr [fadd (fmul (Num big_output) (Num 1)) (Num big_price)]"
    by (rule predict_constant_one_step) (simp_all add: huge_net_def)
  then have pc: "predict (Torch huge_net) (replicate 60 (Num big_price)) 1 = Inr [PosInf]"
    by (simp only: ov)
  have tp: "torch_norm_params (replicate 60 PosInf) = Inr (PosInf, Num 1)"
    by (rule torch_norm_params_const) simp_all
  have "predict (Torch half_net) (replicate 60 PosInf) 1
          = Inr [fadd (fmul (Num (1 / 2)) (Num 1)) PosInf]"
    by (rule predict_constant_one_step) (simp_all add: half_net_def)
  then have pi: "predict (Torch half_net) (replicate 60 PosInf) 1 = Inr [PosInf]"
    by (simp add: round_overflow_small)
  have f: "is_finite (Num big_price)" "is_finite (Num big_output)" "is_finite (Num (1 / 2))"
    "\<not> is_finite PosInf"
    by simp_all
  from tc hn f lt pc tp pi show ?thesis by blast
qed

subsection \<open>The synthesized moving averages\<close>

lemma py_slice_window:
  assumes "i < length cs" and "k \<le> i"
  shows "py_slice (i - k) (i + 1) cs = map (\<lambda>j. cs ! j) [i - k..<i + 1]"
    and "length (py_slice (i - k) (i + 1) cs) = k + 1"
proof -
  have "take (i + 1 - (i - k)) (drop (i - k) cs) = map (\<lambda>j. cs ! j) [i - k..<i + 1]"
  proof (rule nth_equalityI)
    show "length (take (i + 1 - (i - k)) (drop (i - k) cs)) = length (map (\<lambda>j. cs ! j) [i - k..<i + 1])"
      using assms by simp
  next
    fix n
    assume "n < length (take (i + 1 - (i - k)) (drop (i - k) cs))"
    then have n: "n < k + 1" using assms by simp
    then have "i - k + n < i + 1" using assms by simp
    then have "map (\<lambda>j. cs ! j) [i - k..<i + 1] ! n = cs ! (i - k + n)"
      using n assms by (simp del: upt_Suc add: nth_map_upt)
    moreover have "take (i + 1 - (i - k)) (drop (i - k) cs) ! n = cs ! (i - k + n)"
      using n assms by simp
    ultimately show "take (i + 1 - (i - k)) (drop (i - k) cs) ! n = map (\<lambda>j. cs ! j) [i - k..<i + 1] ! n"
      by simp
  qed
  then show "py_slice (i - k) (i + 1) cs = map (\<lambda>j. cs ! j) [i - k..<i + 1]"
    by (simp add: py_slice_def)
  show "length (py_slice (i - k) (i + 1) cs) = k + 1"
    using assms by (simp add: py_slice_def)
qed

text \<open>
  C2, amended. In the six-channel path the 5-, 10- and 20-step moving-average
  features at timestep \<open>i\<close> are the mean of the last 5, 10 and 20 prices up to \<open>i\<close>
  once that many are there (\<open>i \<ge> 4\<close>, \<open>9\<close>, \<open>19\<close>); before that, the feature is the
  price at \<open>i\<close> itself.
\<close>

theorem moving_average_or_price:
  assumes "i < length cs"
  shows "synth_features cs ! i ! 2
           = (if 4 \<le> i then np_mean (map (\<lambda>j. cs ! j) [i - 4..<i + 1]) else cs ! i)
       \<and> synth_features cs ! i ! 3
           = (if 9 \<le> i then np_mean (map (\<lambda>j. cs ! j) [i - 9..<i + 1]) else cs ! i)
       \<and> synth_features cs ! i ! 4
           = (if 19 \<le> i then np_mean (map (\<lambda>j. cs ! j) [i - 19..<i + 1]) else cs ! i)"
  using assms py_slice_window(1)[OF assms]
  by (simp add: synth_features_nth feature_row_def Let_def)

theorem moving_average_or_price_witness:
  "(1::nat) < length prices_1_to_60 \<and> (10::nat) < length prices_1_to_60
   \<and> synth_features prices_1_to_60 ! 1 ! 2 = Num 2
   \<and> synth_features prices_1_to_60 ! 10 ! 2 = Num 9
   \<and> synth_features prices_1_to_60 ! 10 ! 3 = Num (13 / 2)
   \<and> synth_features prices_1_to_60 ! 10 ! 4 = Num 11"
proof -
  have h1: "(1::nat) < length prices_1_to_60" by (simp add: prices_1_to_60_def)
  have h2: "(10::nat) < length prices_1_to_60" by (simp add: prices_1_to_60_def)
  have a: "prices_1_to_60 ! 1 = Num 2" by code_simp
  have w5: "map (\<lambda>j. prices_1_to_60 ! j) [10 - 4..<10 + 1]
               = [Num 7, Num 8, Num 9, Num 10, Num 11]"
    by code_simp
  have w10: "map (\<lambda>j. prices_1_to_60 ! j) [10 - 9..<10 + 1]
               = [Num 2, Num 3, Num 4, Num 5, Num 6, Num 7, Num 8, Num 9, Num 10, Num 11]"
    by code_simp
  have b: "np_mean (map (\<lambda>j. prices_1_to_60 ! j) [10 - 4..<10 + 1]) = Num 9"
    unfolding w5 by (simp add: np_mean_def np_sum_def round_overflow_small)
  have c: "np_mean (map (\<lambda>j. prices_1_to_60 ! j) [10 - 9..<10 + 1]) = Num (13 / 2)"
    unfolding w10 by (simp add: np_mean_def np_sum_def round_overflow_small)
  have d: "prices_1_to_60 ! 10 = Num 11" by code_simp
  from moving_average_or_price[OF h1] moving_average_or_price[OF h2] h1 h2 a b c d
  show ?thesis by simp
qed

text \<open>
  C2 as stated fails at timestep 1 of the prices \<open>1, 2, ..., 60\<close>: the 5-step
  feature is the price 2, the mean of the elements from the start through timestep 1
  is 1.5.
\<close>

theorem moving_average_truncated_counterexample:
  "synth_features prices_1_to_60 ! 1 ! 2 = Num 2
   \<and> py_slice 0 2 prices_1_to_60 = [Num 1, Num 2]
   \<and> np_mean (py_slice 0 2 prices_1_to_60) = Num (3 / 2)
   \<and> synth_features prices_1_to_60 ! 1 ! 2 \<noteq> np_mean (py_slice 0 2 prices_1_to_60)"
proof -
  have l: "(1::nat) < length prices_1_to_60" by (simp add: prices_1_to_60_def)
  have a: "prices_1_to_60 ! 1 = Num 2" by code_simp
  have s: "py_slice 0 2 prices_1_to_60 = [Num 1, Num 2]" by code_simp
  have m: "np_mean [Num 1, Num 2] = Num (3 / 2)"
    by (simp add: np_mean_def np_sum_def round_overflow_small)
  have f: "synth_features prices_1_to_60 ! 1 ! 2 = Num 2"
    using synth_features_nth[OF l] a by (simp add: feature_row_def Let_def)
  from a s m f show ?thesis by simp
qed

section \<open>Properties of the model resolver\<close>

lemma scaler_name_nonempty: "scaler_name f \<Longrightarrow> f \<noteq> []"
  by (auto simp: scaler_name_def)

lemma metadata_name_nonempty: "metadata_name f \<Longrightarrow> f \<noteq> []"
  by (auto simp: metadata_name_def)

lemma find_companions_scaler:
  assumes "list_repo_files env repo_id = Inr files"
    and "find scaler_name files = Some f"
    and "hf_hub_download env repo_id f = Inr p"
  shows "fst (find_companions env repo_id) = Some p"
proof -
  have "scaler_name f" using assms(2) by (auto simp: find_Some_iff)
  then have "f \<noteq> []" by (rule scaler_name_nonempty)
  with assms show ?thesis
    unfolding find_companions_def
    by (auto simp: Let_def split: sum.splits option.splits)
qed

lemma find_companions_metadata:
  assumes "list_repo_files env repo_id = Inr files"
    and "find metadata_name files = Some f"
    and "hf_hub_download env repo_id f = Inr p"
    and "\<forall>g. find scaler_name files = Some g \<longrightarrow> (\<exists>q. hf_hub_download env repo_id g = Inr q)"
  shows "snd (find_companions env repo_id) = Some p"
proof -
  have "metadata_name f" using assms(2) by (auto simp: find_Some_iff)
  then have "f \<noteq> []" by (rule metadata_name_nonempty)
  with assms show ?thesis
    unfolding find_companions_def
    by (auto simp: Let_def split: sum.splits option.splits)
qed

lemma resolve_native:
  assumes "fst (try_download (hf_hub_download env repo_id) possible_filenames None) = Some path"
  shows "\<exists>e. resolve env repo_id = (Some path, None, None, e)"
  using assms by (auto simp: resolve_def split: prod.splits)

lemma resolve_fallback:
  assumes "fst (try_download (hf_hub_download env repo_id) possible_filenames None) = None"
    and "resolve env repo_id = (Some model_path, scaler_path, metadata_path, last_error)"
    and "model_path \<noteq> []"
  shows "(scaler_path, metadata_path) = find_companions env repo_id"
  using assms
  by (auto simp: resolve_def Let_def split: prod.splits option.splits if_splits)

lemma load_model_keras:
  assumes "resolve env repo_id = (Some model_path, scaler_path, metadata_path, last_error)"
    and "suffix ''.keras'' model_path" and "HAS_TF env"
    and "keras_load_model env model_path = Inr km"
  shows "load_model env repo_id
           = Inr (Keras km (load_companion (pickle_load env) scaler_path)
                           (load_companion (json_load env) metadata_path))"
  using assms by (simp add: load_model_def Let_def)

lemma resolve_torch_hub: "resolve torch_hub_env default_repo_id = (Some ''/cache/model.pth'', None, None, None)"
  by (simp add: resolve_def torch_hub_env_def possible_filenames_def)

lemma companions_torch_hub: "find_companions torch_hub_env default_repo_id = (Some ''/cache/scaler.pkl'', Some ''/cache/metadata.json'')"
  by code_simp

lemma load_torch_hub: "load_model torch_hub_env default_repo_id = Inr (Torch half_net)"
  by (simp add: load_model_def resolve_def torch_hub_env_def possible_filenames_def suffix_to_prefix)

lemma resolve_keras_hub:
  "resolve keras_hub_env default_repo_id
     = (Some ''/cache/model.keras'', Some ''/cache/Feature_Scaler.pkl'',
        Some ''/cache/metadata.json'', Some ''404 Not Found'')"
  by code_simp

lemma native_keras_hub:
  "fst (try_download (hf_hub_download keras_hub_env default_repo_id) possible_filenames None) = None"
  by code_simp

lemma load_keras_hub:
  "load_model keras_hub_env default_repo_id = Inr (Keras six_channel_model (Some identity_scaler) None)"
proof -
  have "load_model keras_hub_env default_repo_id
          = Inr (Keras six_channel_model
                   (load_companion (pickle_load keras_hub_env) (Some ''/cache/Feature_Scaler.pkl''))
                   (load_companion (json_load keras_hub_env) (Some ''/cache/metadata.json'')))"
    by (rule load_model_keras[OF resolve_keras_hub]) (simp_all add: keras_hub_env_def suffix_to_prefix)
  then show ?thesis by (simp add: load_companion_def keras_hub_env_def)
qed

text \<open>
  C5, amended. When no PyTorch candidate downloads and a Keras artifact is found, the
  resolver searches the file listing for the first file whose lower-cased name
  contains \<^verbatim>\<open>scaler\<close> and that ends in \<^verbatim>\<open>.pkl\<close>, and for the first whose lower-cased
  name contains \<^verbatim>\<open>metadata\<close> and that ends in \<^verbatim>\<open>.json\<close>, and downloads them; the
  Keras model then loads with whatever companions could be loaded, a companion whose
  load raises being left out. When a PyTorch candidate downloads, no companion is
  searched.
\<close>

theorem companions_for_keras_only:
  assumes "resolve env repo_id = (Some model_path, scaler_path, metadata_path, last_error)"
  shows "(fst (try_download (hf_hub_download env repo_id) possible_filenames None) \<noteq> None
           \<longrightarrow> scaler_path = None \<and> metadata_path = None)
       \<and> (fst (try_download (hf_hub_download env repo_id) possible_filenames None) = None
             \<and> model_path \<noteq> []
           \<longrightarrow> (scaler_path, metadata_path) = find_companions env repo_id
             \<and> (\<forall>files f p. list_repo_files env repo_id = Inr files
                    \<and> find scaler_name files = Some f
                    \<and> hf_hub_download env repo_id f = Inr p
                  \<longrightarrow> scaler_path = Some p)
             \<and> (\<forall>files f p. list_repo_files env repo_id = Inr files
                    \<and> find metadata_name files = Some f
                    \<and> hf_hub_download env repo_id f = Inr p
                    \<and> (\<forall>g. find scaler_name files = Some g
                           \<longrightarrow> (\<exists>q. hf_hub_download env repo_id g = Inr q))
                  \<longrightarrow> metadata_path = Some p))
       \<and> (suffix ''.keras'' model_path \<and> HAS_TF env
           \<longrightarrow> (\<forall>km. keras_load_model env model_path = Inr km
                 \<longrightarrow> load_model env repo_id
                       = Inr (Keras km (load_companion (pickle_load env) scaler_path)
                                       (load_companion (json_load env) metadata_path))))
       \<and> (\<forall>loader p e. loader p = Inl e \<longrightarrow> load_companion loader (Some p) = (None :: 'a option))"
proof -
  have a: "fst (try_download (hf_hub_download env repo_id) possible_filenames None) \<noteq> None
           \<longrightarrow> scaler_path = None \<and> metadata_path = None"
    using resolve_native[of env repo_id] assms by auto
  have b: "(scaler_path, metadata_path) = find_companions env repo_id"
    if "fst (try_download (hf_hub_download env repo_id) possible_filenames None) = None"
       "model_path \<noteq> []"
    using resolve_fallback[OF that(1) assms that(2)] .
  have c: "scaler_path = Some p"
    if "fst (try_download (hf_hub_download env repo_id) possible_filenames None) = None"
       "model_path \<noteq> []" "list_repo_files env repo_id = Inr files"
       "find scaler_name files = Some f" "hf_hub_download env repo_id f = Inr p" for files f p
    using find_companions_scaler[OF that(3,4,5)] b[OF that(1,2)] by (metis fst_conv)
  have d: "metadata_path = Some p"
    if "fst (try_download (hf_hub_download env repo_id) possible_filenames None) = None"
       "model_path \<noteq> []" "list_repo_files env repo_id = Inr files"
       "find metadata_name files = Some f" "hf_hub_download env repo_id f = Inr p"
       "\<forall>g. find scaler_name files = Some g \<longrightarrow> (\<exists>q. hf_hub_download env repo_id g = Inr q)"
    for files f p
    using find_companions_metadata[OF that(3,4,5,6)] b[OF that(1,2)] by (metis snd_conv)
  have e: "load_model env repo_id
             = Inr (Keras km (load_companion (pickle_load env) scaler_path)
                             (load_companion (json_load env) metadata_path))"
    if "suffix ''.keras'' model_path" "HAS_TF env" "keras_load_model env model_path = Inr km" for km
    using load_model_keras[OF assms that] .
  have f: "\<forall>loader p e. loader p = Inl e \<longrightarrow> load_companion loader (Some p) = (None :: 'a option)"
    by (auto simp: load_companion_def)
  from a b c d e f show ?thesis by blast
qed

theorem companions_for_keras_only_witness:
  "resolve keras_hub_env default_repo_id
     = (Some ''/cache/model.keras'', Some ''/cache/Feature_Scaler.pkl'',
        Some ''/cache/metadata.json'', Some ''404 Not Found'')
   \<and> fst (try_download (hf_hub_download keras_hub_env default_repo_id) possible_filenames None) = None
   \<and> suffix ''.keras'' ''/cache/model.keras'' \<and> HAS_TF keras_hub_env
   \<and> keras_load_model keras_hub_env ''/cache/model.keras'' = Inr six_channel_model
   \<and> find_companions keras_hub_env default_repo_id
       = (Some ''/cache/Feature_Scaler.pkl'', Some ''/cache/metadata.json'')
   \<and> load_model keras_hub_env default_repo_id
       = Inr (Keras six_channel_model
                (load_companion (pickle_load keras_hub_env) (Some ''/cache/Feature_Scaler.pkl''))
                (load_companion (json_load keras_hub_env) (Some ''/cache/metadata.json'')))
   \<and> load_model keras_hub_env default_repo_id
       = Inr (Keras six_channel_model (Some identity_scaler) None)"
proof -
  have h1: "suffix ''.keras'' ''/cache/model.keras''" by (simp add: suffix_to_prefix)
  have h2: "HAS_TF keras_hub_env" by (simp add: keras_hub_env_def)
  have h3: "keras_load_model keras_hub_env ''/cache/model.keras'' = Inr six_channel_model"
    by (simp add: keras_hub_env_def)
  have h4: "''/cache/model.keras'' \<noteq> []" by simp
  from companions_for_keras_only[OF resolve_keras_hub] native_keras_hub h1 h2 h3 h4
  have "(Some ''/cache/Feature_Scaler.pkl'', Some ''/cache/metadata.json'')
          = find_companions keras_hub_env default_repo_id"
    and "load_model keras_hub_env default_repo_id
       = Inr (Keras six_channel_model
                (load_companion (pickle_load keras_hub_env) (Some ''/cache/Feature_Scaler.pkl''))
                (load_companion (json_load keras_hub_env) (Some ''/cache/metadata.json'')))"
    by blast+
  with resolve_keras_hub native_keras_hub h1 h2 h3 load_keras_hub show ?thesis by simp
qed

text \<open>
  C5 as stated fails when the artifact found is a PyTorch checkpoint: the hub holds
  \<^verbatim>\<open>model.pth\<close> beside \<^verbatim>\<open>scaler.pkl\<close> and \<^verbatim>\<open>metadata.json\<close>, both of which the
  companion search would find and download, yet the resolver ends with neither path.
\<close>

theorem companions_skipped_for_native_counterexample:
  "resolve torch_hub_env default_repo_id = (Some ''/cache/model.pth'', None, None, None)
   \<and> load_model torch_hub_env default_repo_id = Inr (Torch half_net)
   \<and> list_repo_files torch_hub_env default_repo_id
       = Inr [''model.pth'', ''scaler.pkl'', ''metadata.json'']
   \<and> scaler_name ''scaler.pkl'' \<and> metadata_name ''metadata.json''
   \<and> find_companions torch_hub_env default_repo_id
       = (Some ''/cache/scaler.pkl'', Some ''/cache/metadata.json'')"
proof -
  have "list_repo_files torch_hub_env default_repo_id
          = Inr [''model.pth'', ''scaler.pkl'', ''metadata.json'']"
    by (simp add: torch_hub_env_def)
  moreover have "scaler_name ''scaler.pkl''" by code_simp
  moreover have "metadata_name ''metadata.json''" by code_simp
  ultimately show ?thesis
    using resolve_torch_hub load_torch_hub companions_torch_hub by simp
qed

section \<open>Properties of the two programs\<close>

lemma float_all_None_iff:
  "float_all py_float ts = None \<longleftrightarrow> (\<exists>t \<in> set ts. py_float t = None)"
  by (induction ts) (auto split: option.splits)

lemma parse_sixty_ones: "parse_prices toy_float sixty_ones = Some (replicate 60 (Num 1))"
  by code_simp

text \<open>
  C8. When a token of \<^verbatim>\<open>--prices\<close> does not parse as a float, both programs print
  the one object \<^verbatim>\<open>{"error": "Invalid price format"}\<close>, exit with status 1 and have
  not started a model load.
\<close>

theorem malformed_token_rejected:
  assumes "\<exists>t \<in> set (split_on CHR '','' prices_arg). py_float t = None"
  shows "lstm_main py_float env prices_arg steps
           = \<lparr>stdout = [ErrorObj ''Invalid price format''], exit_status = 1,
              load_attempted = False, predict_attempted = False\<rparr>
       \<and> chronos_main py_float from_pretrained prices_arg steps'
           = \<lparr>stdout = [ErrorObj ''Invalid price format''], exit_status = 1,
              load_attempted = False, predict_attempted = False\<rparr>"
proof -
  from assms have "parse_prices py_float prices_arg = None"
    by (simp add: parse_prices_def float_all_None_iff)
  then show ?thesis by (simp add: lstm_main_def chronos_main_def)
qed

theorem malformed_token_rejected_witness:
  "split_on CHR '','' ''1,x,3'' = [''1'', ''x'', ''3''] \<and> toy_float ''x'' = None
   \<and> lstm_main toy_float torch_hub_env ''1,x,3'' 5
        = \<lparr>stdout = [ErrorObj ''Invalid price format''], exit_status = 1,
           load_attempted = False, predict_attempted = False\<rparr>
   \<and> chronos_main toy_float (Inl ''offline'') ''1,x,3'' 10
        = \<lparr>stdout = [ErrorObj ''Invalid price format''], exit_status = 1,
           load_attempted = False, predict_attempted = False\<rparr>"
proof -
  have sp: "split_on CHR '','' ''1,x,3'' = [''1'', ''x'', ''3'']" by simp
  have tx: "toy_float ''x'' = None" by (simp add: toy_float_def)
  have h: "\<exists>t \<in> set (split_on CHR '','' ''1,x,3''). toy_float t = None"
    unfolding sp using tx by simp
  from malformed_token_rejected[OF h, of torch_hub_env 5 "Inl ''offline''" 10] sp tx
  show ?thesis by simp
qed

text \<open>
  C7. For a parsed price list of fewer than 60 elements Program B prints the error
  object that asks for 60 price points, exits with status 1 and starts neither the
  model load nor the prediction, whatever \<^verbatim>\<open>--steps\<close> is.
\<close>

theorem short_input_rejected:
  assumes "parse_prices py_float prices_arg = Some prices" and "length prices < 60"
  shows "lstm_main py_float env prices_arg steps
           = \<lparr>stdout = [ErrorObj ''Need at least 60 price points''], exit_status = 1,
              load_attempted = False, predict_attempted = False\<rparr>"
  using assms by (simp add: lstm_main_def SEQUENCE_LENGTH_def)

theorem short_input_rejected_witness:
  "parse_prices toy_float ''1,2,3'' = Some [Num 1, Num 2, Num 3]
   \<and> length [Num 1, Num 2, Num 3] < 60
   \<and> lstm_main toy_float torch_hub_env ''1,2,3'' 5
        = \<lparr>stdout = [ErrorObj ''Need at least 60 price points''], exit_status = 1,
           load_attempted = False, predict_attempted = False\<rparr>"
proof -
  have h1: "parse_prices toy_float ''1,2,3'' = Some [Num 1, Num 2, Num 3]"
    by (simp add: parse_prices_def toy_float_def)
  have h2: "length [Num 1, Num 2, Num 3] < 60" by simp
  from short_input_rejected[OF h1 h2, of torch_hub_env 5] h1 h2 show ?thesis by simp
qed

text \<open>
  C10. For \<open>steps \<le> 0\<close>, \<^verbatim>\<open>predict\<close> returns the empty list without an inference
  call, and Program B (the input parsed, of at least 60 prices, the model loaded)
  prints \<^verbatim>\<open>{"prediction": [], "last_price": ...}\<close> and exits with status 0.
\<close>

theorem nonpositive_steps_succeed:
  assumes "steps \<le> 0"
    and "parse_prices py_float prices_arg = Some prices"
    and "60 \<le> length prices"
    and "load_model env default_repo_id = Inr model"
  shows "predict model prices steps = Inr []
       \<and> inference_inputs model prices steps = []
       \<and> lstm_main py_float env prices_arg steps
           = \<lparr>stdout = [PredictionObj [] (last prices)], exit_status = 0,
              load_attempted = True, predict_attempted = True\<rparr>"
proof -
  have "prices \<noteq> []" using assms(3) by auto
  from predict_trace_nonpositive[OF assms(1) this]
  have p: "predict model prices steps = Inr []" and i: "inference_inputs model prices steps = []"
    by (simp_all add: predict_def inference_inputs_def)
  from assms(2,3,4) p i show ?thesis
    by (simp add: lstm_main_def SEQUENCE_LENGTH_def)
qed

theorem nonpositive_steps_succeed_witness:
  "(-2::int) \<le> 0
   \<and> parse_prices toy_float sixty_ones = Some (replicate 60 (Num 1))
   \<and> 60 \<le> length (replicate 60 (Num 1 :: fl))
   \<and> load_model torch_hub_env default_repo_id = Inr (Torch half_net)
   \<and> lstm_main toy_float torch_hub_env sixty_ones (-2)
        = \<lparr>stdout = [PredictionObj [] (Num 1)], exit_status = 0,
           load_attempted = True, predict_attempted = True\<rparr>"
proof -
  have h1: "(-2::int) \<le> 0" by simp
  have h3: "60 \<le> length (replicate 60 (Num 1 :: fl))" by simp
  from nonpositive_steps_succeed[OF h1 parse_sixty_ones h3 load_torch_hub]
    h1 parse_sixty_ones h3 load_torch_hub
  show ?thesis by simp
qed

section \<open>Properties of the quantile forecaster\<close>

lemma interp_between:
  fixes s :: "real list"
  assumes "sorted s" and "0 \<le> pos" and "pos \<le> real (length s - 1)" and "s \<noteq> []"
  shows "s ! nat \<lfloor>pos\<rfloor> \<le> s ! nat \<lfloor>pos\<rfloor> + (pos - real (nat \<lfloor>pos\<rfloor>)) * (s ! nat \<lceil>pos\<rceil> - s ! nat \<lfloor>pos\<rfloor>)"
    and "s ! nat \<lfloor>pos\<rfloor> + (pos - real (nat \<lfloor>pos\<rfloor>)) * (s ! nat \<lceil>pos\<rceil> - s ! nat \<lfloor>pos\<rfloor>) \<le> s ! nat \<lceil>pos\<rceil>"
proof -
  let ?lo = "nat \<lfloor>pos\<rfloor>" and ?hi = "nat \<lceil>pos\<rceil>"
  have lohi: "?lo \<le> ?hi" by (simp add: floor_le_ceiling nat_mono)
  have "\<lceil>pos\<rceil> \<le> int (length s - 1)" using assms(3) by (simp add: ceiling_le_iff)
  then have hi: "?hi < length s" using assms(4) by (cases s) auto
  have d: "s ! ?lo \<le> s ! ?hi" using sorted_nth_mono[OF assms(1) lohi hi] .
  have "0 \<le> \<lfloor>pos\<rfloor>" using assms(2) by simp
  then have rl: "real ?lo = of_int \<lfloor>pos\<rfloor>" by simp
  have w0: "0 \<le> pos - real ?lo" unfolding rl by linarith
  have w1: "pos - real ?lo \<le> 1" unfolding rl by linarith
  show "s ! ?lo \<le> s ! ?lo + (pos - real ?lo) * (s ! ?hi - s ! ?lo)"
    using w0 d by simp
  have "(pos - real ?lo) * (s ! ?hi - s ! ?lo) \<le> 1 * (s ! ?hi - s ! ?lo)"
    using w1 d by (intro mult_right_mono) simp_all
  then show "s ! ?lo + (pos - real ?lo) * (s ! ?hi - s ! ?lo) \<le> s ! ?hi" by simp
qed

lemma interp_mono:
  fixes s :: "real list"
  assumes "sorted s" and "0 \<le> p1" and "p1 \<le> p2" and "p2 \<le> real (length s - 1)" and "s \<noteq> []"
  shows "s ! nat \<lfloor>p1\<rfloor> + (p1 - real (nat \<lfloor>p1\<rfloor>)) * (s ! nat \<lceil>p1\<rceil> - s ! nat \<lfloor>p1\<rfloor>)
       \<le> s ! nat \<lfloor>p2\<rfloor> + (p2 - real (nat \<lfloor>p2\<rfloor>)) * (s ! nat \<lceil>p2\<rceil> - s ! nat \<lfloor>p2\<rfloor>)"
proof (cases "\<lceil>p1\<rceil> \<le> \<lfloor>p2\<rfloor>")
  case True
  have p2: "0 \<le> p2" using assms(2,3) by simp
  have p1: "p1 \<le> real (length s - 1)" using assms(3,4) by simp
  have "\<lfloor>p2\<rfloor> \<le> int (length s - 1)" using assms(4) by (simp add: floor_le_iff)
  then have hi2: "nat \<lfloor>p2\<rfloor> < length s" using assms(5) by (cases s) auto
  have "nat \<lceil>p1\<rceil> \<le> nat \<lfloor>p2\<rfloor>" using True by (rule nat_mono)
  then have "s ! nat \<lceil>p1\<rceil> \<le> s ! nat \<lfloor>p2\<rfloor>"
    using hi2 by (rule sorted_nth_mono[OF assms(1)])
  with interp_between(2)[OF assms(1,2) p1 assms(5)] interp_between(1)[OF assms(1) p2 assms(4,5)]
  show ?thesis by linarith
next
  case False
  then have lt: "\<lfloor>p2\<rfloor> < \<lceil>p1\<rceil>" by simp
  have fl: "\<lfloor>p1\<rfloor> \<le> \<lfloor>p2\<rfloor>" using assms(3) by (rule floor_mono)
  have "\<lceil>p1\<rceil> \<le> \<lfloor>p1\<rfloor> + 1" using ceiling_diff_floor_le_1[of p1] by simp
  with lt fl have feq: "\<lfloor>p2\<rfloor> = \<lfloor>p1\<rfloor>" and c1: "\<lceil>p1\<rceil> = \<lfloor>p1\<rfloor> + 1" by linarith+
  have "\<lceil>p1\<rceil> \<le> \<lceil>p2\<rceil>" using assms(3) by (rule ceiling_mono)
  moreover have "\<lceil>p2\<rceil> \<le> \<lfloor>p2\<rfloor> + 1" using ceiling_diff_floor_le_1[of p2] by simp
  ultimately have ceq: "\<lceil>p2\<rceil> = \<lceil>p1\<rceil>" using c1 feq by linarith
  let ?lo = "nat \<lfloor>p1\<rfloor>" and ?hi = "nat \<lceil>p1\<rceil>"
  have lohi: "?lo \<le> ?hi" by (simp add: floor_le_ceiling nat_mono)
  have "p1 \<le> real (length s - 1)" using assms(3,4) by simp
  then have "\<lceil>p1\<rceil> \<le> int (length s - 1)" by (simp add: ceiling_le_iff)
  then have hi: "?hi < length s" using assms(5) by (cases s) auto
  have d: "0 \<le> s ! ?hi - s ! ?lo" using sorted_nth_mono[OF assms(1) lohi hi] by simp
  have "(p1 - real ?lo) * (s ! ?hi - s ! ?lo) \<le> (p2 - real ?lo) * (s ! ?hi - s ! ?lo)"
    using assms(3) d by (intro mult_right_mono) simp_all
  then show ?thesis unfolding feq ceq by simp
qed

lemma quantile_mono:
  assumes "0 \<le> q1" and "q1 \<le> q2" and "q2 \<le> 1" and "xs \<noteq> []"
  shows "quantile q1 xs \<le> quantile q2 xs"
proof -
  let ?s = "sort xs" and ?n = "real (length xs - 1)"
  have ls: "length ?s = length xs" by simp
  have s: "sorted ?s" "?s \<noteq> []"
    using assms(4) ls by (simp, metis length_0_conv)
  have a: "0 \<le> q1 * ?n" using assms(1) by simp
  have b: "q1 * ?n \<le> q2 * ?n" using assms(2) by (simp add: mult_right_mono)
  have "q2 * ?n \<le> 1 * ?n" using assms(3) by (intro mult_right_mono) simp_all
  then have c: "q2 * ?n \<le> real (length ?s - 1)" by (simp only: ls mult_1)
  from interp_mono[OF s(1) a b c s(2)] show ?thesis
    by (simp add: quantile_def Let_def)
qed

lemma length_column [simp]: "length (column j m) = length m"
  by (simp add: column_def)

lemma torch_quantile_bands:
  assumes "samples \<noteq> []" and "\<forall>s \<in> set samples. length s = n" and "0 < n"
  shows "torch_quantile samples [1 / 10, 1 / 2, 9 / 10]
           = Inr [map (\<lambda>j. quantile (1 / 10) (column j samples)) [0..<n],
                  map (\<lambda>j. quantile (1 / 2) (column j samples)) [0..<n],
                  map (\<lambda>j. quantile (9 / 10) (column j samples)) [0..<n]]"
proof -
  have "hd samples \<in> set samples" using assms(1) by simp
  then have "length (hd samples) = n" using assms(2) by blast
  with assms(1,3) show ?thesis by (auto simp: torch_quantile_def)
qed

text \<open>
  C6. With 20 sample trajectories of length \<open>steps\<close> from the pipeline, the
  lower-bound, median and upper-bound sequences that Program A prints have length
  \<open>steps\<close> each, and at every position lower bound \<open>\<le>\<close> median \<open>\<le>\<close> upper bound;
  for \<open>steps \<ge> 1\<close> it does print them.
\<close>

theorem quantile_bands_ordered:
  assumes "parse_prices py_float prices_arg = Some prices"
    and "from_pretrained = Inr pipeline_predict"
    and "pipeline_predict prices steps 20 = Inr forecast"
    and "length forecast = 20"
    and "\<forall>s \<in> set forecast. int (length s) = steps"
  shows "(\<forall>median low high.
            stdout (chronos_main py_float from_pretrained prices_arg steps)
              = [ForecastObj median low high]
            \<longrightarrow> int (length low) = steps \<and> int (length median) = steps
              \<and> int (length high) = steps
              \<and> (\<forall>j < length median. low ! j \<le> median ! j \<and> median ! j \<le> high ! j))
       \<and> (1 \<le> steps \<longrightarrow>
            (\<exists>median low high.
               chronos_main py_float from_pretrained prices_arg steps
                 = \<lparr>stdout = [ForecastObj median low high], exit_status = 0,
                    load_attempted = True, predict_attempted = True\<rparr>))"
proof (cases "1 \<le> steps")
  case True
  let ?n = "nat steps"
  let ?low = "map (\<lambda>j. quantile (1 / 10) (column j forecast)) [0..<?n]"
  let ?med = "map (\<lambda>j. quantile (1 / 2) (column j forecast)) [0..<?n]"
  let ?high = "map (\<lambda>j. quantile (9 / 10) (column j forecast)) [0..<?n]"
  have ne: "forecast \<noteq> []" using assms(4) by auto
  have rows: "\<forall>s \<in> set forecast. length s = ?n" using assms(5) by auto
  have pos: "0 < ?n" using True by simp
  have q: "torch_quantile forecast [1 / 10, 1 / 2, 9 / 10] = Inr [?low, ?med, ?high]"
    using torch_quantile_bands[OF ne rows pos] .
  have out: "chronos_main py_float from_pretrained prices_arg steps
             = \<lparr>stdout = [ForecastObj ?med ?low ?high], exit_status = 0,
                load_attempted = True, predict_attempted = True\<rparr>"
    using assms(1,2,3) q by (simp add: chronos_main_def Let_def)
  have len: "int (length ?low) = steps" "int (length ?med) = steps" "int (length ?high) = steps"
    using True by simp_all
  have ord: "?low ! j \<le> ?med ! j \<and> ?med ! j \<le> ?high ! j" if "j < length ?med" for j
  proof -
    have j: "j < ?n" using that by simp
    have c: "column j forecast \<noteq> []" using ne by (simp add: column_def)
    have "quantile (1 / 10) (column j forecast) \<le> quantile (1 / 2) (column j forecast)"
      by (rule quantile_mono[OF _ _ _ c]) simp_all
    moreover have "quantile (1 / 2) (column j forecast) \<le> quantile (9 / 10) (column j forecast)"
      by (rule quantile_mono[OF _ _ _ c]) simp_all
    ultimately show ?thesis using j by simp
  qed
  have first: "int (length low) = steps \<and> int (length median) = steps
              \<and> int (length high) = steps
              \<and> (\<forall>j < length median. low ! j \<le> median ! j \<and> median ! j \<le> high ! j)"
    if "stdout (chronos_main py_float from_pretrained prices_arg steps)
              = [ForecastObj median low high]" for median low high
  proof -
    from that out have "median = ?med" "low = ?low" "high = ?high" by simp_all
    with len ord show ?thesis by blast
  qed
  from first out show ?thesis by blast
next
  case False
  have ne: "forecast \<noteq> []" using assms(4) by auto
  then have "hd forecast \<in> set forecast" by simp
  then have "int (length (hd forecast)) = steps" using assms(5) by blast
  with False have "length (hd forecast) = 0" by linarith
  then have "hd forecast = []" by simp
  then have "torch_quantile forecast [1 / 10, 1 / 2, 9 / 10]
               = Inl ''quantile() input tensor must be non-empty''"
    by (simp add: torch_quantile_def)
  then have "stdout (chronos_main py_float from_pretrained prices_arg steps)
               = [ErrorObj (''Prediction failed: '' @ ''quantile() input tensor must be non-empty'')]"
    using assms(1,2,3) by (simp add: chronos_main_def)
  with False show ?thesis by simp
qed

lemma ramp_rows: "list_all (\<lambda>s. int (length s) = 2) (map (\<lambda>i. replicate (nat 2) (real i)) [0..<20])"
  by (simp add: list_all_iff)

theorem quantile_bands_ordered_witness:
  "parse_prices toy_float ''1,2,3'' = Some [Num 1, Num 2, Num 3]
   \<and> ramp_pipeline [Num 1, Num 2, Num 3] 2 20 = Inr (map (\<lambda>i. replicate (nat 2) (real i)) [0..<20])
   \<and> length (map (\<lambda>i. replicate (nat 2) (real i)) [0..<20]) = 20
   \<and> list_all (\<lambda>s. int (length s) = 2) (map (\<lambda>i. replicate (nat 2) (real i)) [0..<20])
   \<and> (1::int) \<le> 2
   \<and> (\<exists>median low high.
           chronos_main toy_float (Inr ramp_pipeline) ''1,2,3'' 2
             = \<lparr>stdout = [ForecastObj median low high], exit_status = 0,
                load_attempted = True, predict_attempted = True\<rparr>
         \<and> int (length low) = 2 \<and> int (length median) = 2 \<and> int (length high) = 2
         \<and> low ! 0 \<le> median ! 0 \<and> median ! 0 \<le> high ! 0)"
proof -
  have h1: "parse_prices toy_float ''1,2,3'' = Some [Num 1, Num 2, Num 3]"
    by (simp add: parse_prices_def toy_float_def)
  have h3: "ramp_pipeline [Num 1, Num 2, Num 3] 2 20 = Inr (map (\<lambda>i. replicate (nat 2) (real i)) [0..<20])"
    by (simp add: ramp_pipeline_def)
  have h4: "length (map (\<lambda>i. replicate (nat 2) (real i)) [0..<20]) = 20" by simp
  have h5: "\<forall>s \<in> set (map (\<lambda>i. replicate (nat 2) (real i)) [0..<20]). int (length s) = 2"
    by simp
  have h6: "(1::int) \<le> 2" by simp
  note bands = quantile_bands_ordered[where from_pretrained = "Inr ramp_pipeline"
         and pipeline_predict = ramp_pipeline, OF h1 refl h3 h4 h5]
  from bands h6 obtain median low high where
    out: "chronos_main toy_float (Inr ramp_pipeline) ''1,2,3'' 2
             = \<lparr>stdout = [ForecastObj median low high], exit_status = 0,
                load_attempted = True, predict_attempted = True\<rparr>"
    by blast
  then have "stdout (chronos_main toy_float (Inr ramp_pipeline) ''1,2,3'' 2)
               = [ForecastObj median low high]"
    by simp
  with bands have
    "int (length low) = 2" "int (length median) = 2" "int (length high) = 2"
    "\<forall>j < length median. low ! j \<le> median ! j \<and> median ! j \<le> high ! j"
    by blast+
  moreover from this have "low ! 0 \<le> median ! 0 \<and> median ! 0 \<le> high ! 0" by simp
  ultimately show ?thesis using out h1 h3 h4 h6 ramp_rows by blast
qed

end
